theory Spec2Isabelle
  imports Main "HOL-Library.Sublist"
begin

section \<open>Python values, errors and the environment of the process\<close>

text \<open>
  The values that the attribute dictionaries, the configuration map and the argument
  namespace of \<^verbatim>\<open>confumo.py\<close> hold. A \<^verbatim>\<open>dict\<close> and an
  \<^verbatim>\<open>argparse.Namespace\<close> are maps from names to values (their keys are strings);
  a \<^verbatim>\<open>pathlib\<close> path is the string it stands for; a module, a class and a
  function object are named by a string.
\<close>

datatype pyval =
    PNone
  | PBool bool
  | PInt int
  | PStr string
  | PPath string
  | PList "pyval list"
  | PDict "string \<Rightarrow> pyval option"
  | PNamespace "string \<Rightarrow> pyval option"
  | PModule string
  | PClass string
  | PFunction string

text \<open>
  Every exception the modelled code can raise. \<^verbatim>\<open>ConfumoError\<close> is the class of
  \<^verbatim>\<open>confumo.py\<close>; the others are Python's own.
\<close>

datatype error =
    ConfumoError string
  | AttributeError string
  | SystemExit int
  | ArgumentError string
  | FileNotFoundError string
  | FileExistsError string
  | NotADirectoryError string
  | IsADirectoryError string
  | PermissionError string
  | OSError string
  | YAMLError string
  | KeyError string
  | TypeError string
  | ValueError string

text \<open>The outcome of \<^verbatim>\<open>subprocess.run([...], capture_output=True, text=True)\<close>:
  the executable is missing, or the process completed with a return code and its standard output.\<close>

datatype proc_result = ExecutableNotFound | Completed int string

text \<open>
  What the process gets from outside the repository. First what it reads and never
  changes: \<^verbatim>\<open>platform.system()\<close>, \<^verbatim>\<open>os.environ\<close>, \<^verbatim>\<open>sys.argv[1:]\<close>,
  the \<^verbatim>\<open>cygpath -w\<close> process. Then the functions of Python and of its libraries
  that the code calls and that are taken as they are: \<^verbatim>\<open>os.path.expanduser\<close>,
  \<^verbatim>\<open>os.path.abspath\<close> and \<^verbatim>\<open>os.path.join\<close> (which differ between POSIX and
  Windows), PyYAML's \<^verbatim>\<open>safe_load\<close> and \<^verbatim>\<open>dump\<close>, \<^verbatim>\<open>str(v)\<close> for a
  value that is not a string, \<^verbatim>\<open>int(s)\<close> (no result when it raises
  \<^verbatim>\<open>ValueError\<close>), what \<^verbatim>\<open>parser.print_help()\<close> raises, if anything,
  for the description and the help texts of a parser (a text with a percent sign that is
  no valid format makes it raise), and the attribute that the class of a value gives it under a
  name (for a namespace: a method such as \<^verbatim>\<open>_get_kwargs\<close>; which names there are
  depends on the version of Python). Last the operating system's file system, of a type
  \<^typ>\<open>'fs\<close> that is left open, with the calls that the code makes on it:
  \<^verbatim>\<open>os.path.exists\<close>, \<^verbatim>\<open>os.makedirs\<close>, \<^verbatim>\<open>open(p, 'w')\<close> (which creates
  the file or empties it), writing a text to the file just opened, and
  \<^verbatim>\<open>open(p, 'r')\<close> followed by reading the whole file, where \<^verbatim>\<open>p\<close> is a
  path or the number of a file descriptor. A call that can fail
  returns its error; a call that changes the file system returns the file system it
  leaves, also when it fails.
\<close>

record 'fs world =
  platform_system :: string
  environ :: "string \<Rightarrow> string option"
  argv :: "string list"
  cygpath :: "string \<Rightarrow> proc_result"
  expanduser :: "string \<Rightarrow> string"
  abspath :: "string \<Rightarrow> string"
  os_path_join :: "string \<Rightarrow> string \<Rightarrow> string"
  yaml_safe_load :: "string \<Rightarrow> error + pyval"
  yaml_dump :: "pyval \<Rightarrow> string"
  str_of :: "pyval \<Rightarrow> string"
  py_int :: "string \<Rightarrow> int option"
  print_help :: "string list \<Rightarrow> error option"
  class_attr :: "pyval \<Rightarrow> string \<Rightarrow> pyval option"
  os_path_exists :: "'fs \<Rightarrow> string \<Rightarrow> bool"
  os_makedirs :: "'fs \<Rightarrow> string \<Rightarrow> (error + unit) \<times> 'fs"
  open_write :: "'fs \<Rightarrow> string \<Rightarrow> (error + unit) \<times> 'fs"
  write_file :: "'fs \<Rightarrow> string \<Rightarrow> string \<Rightarrow> (error + unit) \<times> 'fs"
  open_read :: "'fs \<Rightarrow> string \<Rightarrow> error + string"
  open_read_fd :: "'fs \<Rightarrow> int \<Rightarrow> error + string"

text \<open>\<^verbatim>\<open>os.getenv(name)\<close> and \<^verbatim>\<open>os.getenv(name, default)\<close>.\<close>

definition os_getenv :: "'fs world \<Rightarrow> string \<Rightarrow> string option" where
  "os_getenv w name = environ w name"

definition os_getenv_default :: "'fs world \<Rightarrow> string \<Rightarrow> string \<Rightarrow> string" where
  "os_getenv_default w name dflt = (case environ w name of None \<Rightarrow> dflt | Some v \<Rightarrow> v)"

section \<open>The platform resolver\<close>

text \<open>
  \<^verbatim>\<open>Confumo._get_default_config_dir\<close>, as a function of
  \<^verbatim>\<open>self.platform_name\<close>. The test \<^verbatim>\<open>if local_app_data:\<close> is Python's
  truthiness of an optional string: false for \<^verbatim>\<open>None\<close> and for the empty string.
\<close>

definition get_default_config_dir :: "'fs world \<Rightarrow> string \<Rightarrow> error + string" where
  "get_default_config_dir w platform_name =
     (if platform_name = ''Darwin'' then Inr (expanduser w ''~/Library/Application Support'')
      else if platform_name \<in> set [''Linux'', ''CYGWIN''] then Inr (expanduser w ''~/.config'')
      else if platform_name = ''Windows'' then
        (case os_getenv w ''LOCALAPPDATA'' of
           None \<Rightarrow> Inl (ConfumoError ''LOCALAPPDATA environment variable is not set on Windows'')
         | Some local_app_data \<Rightarrow>
             if local_app_data \<noteq> [] then Inr local_app_data
             else Inl (ConfumoError ''LOCALAPPDATA environment variable is not set on Windows''))
      else Inl (ConfumoError (''Unsupported OS: '' @ platform_name)))"

section \<open>Strings\<close>

text \<open>\<^verbatim>\<open>str.lower\<close> on ASCII letters, \<^verbatim>\<open>sub in s\<close> on strings, and
  \<^verbatim>\<open>str.strip()\<close>, which removes white space at both ends.\<close>

definition lower_char :: "char \<Rightarrow> char" where
  "lower_char c =
     (case map_of (zip ''ABCDEFGHIJKLMNOPQRSTUVWXYZ'' ''abcdefghijklmnopqrstuvwxyz'') c of
        None \<Rightarrow> c | Some d \<Rightarrow> d)"

definition lower :: "string \<Rightarrow> string" where
  "lower s = map lower_char s"

fun str_contains :: "string \<Rightarrow> string \<Rightarrow> bool" where
  "str_contains sub [] = (sub = [])"
| "str_contains sub (c # cs) = (prefix sub (c # cs) \<or> str_contains sub cs)"

definition isspace :: "char \<Rightarrow> bool" where
  "isspace c = (c \<in> set [CHR '' '', CHR 0x09, CHR 0x0A, CHR 0x0B, CHR 0x0C, CHR 0x0D,
                          CHR 0x1C, CHR 0x1D, CHR 0x1E, CHR 0x1F, CHR 0x85, CHR 0xA0])"

definition strip :: "string \<Rightarrow> string" where
  "strip s = rev (dropWhile isspace (rev (dropWhile isspace s)))"

section \<open>Objects, the registry and the modules\<close>

text \<open>
  A class is named by its name and the module that defines it. An instance is its class
  and its attribute dictionary \<^verbatim>\<open>__dict__\<close>. The heap is the list of the
  instances allocated so far; an instance is referred to by its index, so two references
  are the identical object exactly when they are equal.
\<close>

datatype cls = Cls (cls_name: string) (cls_module: string)

record pyobject =
  inst_cls :: cls
  inst_dict :: "string \<Rightarrow> pyval option"

type_synonym addr = nat

text \<open>
  The state of the process: the heap, the class-level dictionary
  \<^verbatim>\<open>SingletonBase._instances\<close>, the namespaces of the loaded modules
  (\<^verbatim>\<open>sys.modules\<close>, each namespace a list of names with their values), and the file
  system.
\<close>

record 'fs state =
  heap :: "pyobject list"
  instances :: "cls \<Rightarrow> addr option"
  modules :: "string \<Rightarrow> (string \<times> pyval) list option"
  fs :: 'fs

text \<open>A computation that reads and changes the state and returns a value or raises.\<close>

type_synonym ('fs, 'a) comp = "'fs state \<Rightarrow> (error + 'a) \<times> 'fs state"

definition return :: "'a \<Rightarrow> ('fs, 'a) comp" where
  "return x = (\<lambda>st. (Inr x, st))"

definition raise :: "error \<Rightarrow> ('fs, 'a) comp" where
  "raise e = (\<lambda>st. (Inl e, st))"

definition bind :: "('fs, 'a) comp \<Rightarrow> ('a \<Rightarrow> ('fs, 'b) comp) \<Rightarrow> ('fs, 'b) comp" where
  "bind m k = (\<lambda>st. case m st of (Inl e, st') \<Rightarrow> (Inl e, st') | (Inr x, st') \<Rightarrow> k x st')"

text \<open>A call that only computes a value or raises, run inside a computation.\<close>

definition lift :: "error + 'a \<Rightarrow> ('fs, 'a) comp" where
  "lift r = (\<lambda>st. (r, st))"

text \<open>\<^verbatim>\<open>setattr(obj, name, value)\<close> on an instance, and the allocation of a new object.\<close>

definition setattr :: "addr \<Rightarrow> string \<Rightarrow> pyval \<Rightarrow> 'fs state \<Rightarrow> 'fs state" where
  "setattr a name v st =
     (if a < length (heap st)
      then st\<lparr>heap := (heap st)[a := (heap st ! a)\<lparr>inst_dict := (inst_dict (heap st ! a))(name \<mapsto> v)\<rparr>]\<rparr>
      else st)"

definition new_object :: "pyobject \<Rightarrow> 'fs state \<Rightarrow> addr \<times> 'fs state" where
  "new_object obj st = (length (heap st), st\<lparr>heap := heap st @ [obj]\<rparr>)"

text \<open>
  Attribute lookup on a module object. The type of modules itself defines
  \<^verbatim>\<open>__dir__\<close> (and the other methods of \<^verbatim>\<open>object\<close>), so
  \<^verbatim>\<open>hasattr(module, '__dir__')\<close> holds for every module, whereas
  \<^verbatim>\<open>__getattr__\<close> is found only in the module's own namespace.
  \<^verbatim>\<open>dir(module)\<close> lists the names of the namespace.
\<close>

definition module_type_attrs :: "string list" where
  "module_type_attrs =
     [''__class__'', ''__delattr__'', ''__dict__'', ''__dir__'', ''__eq__'', ''__format__'',
      ''__ge__'', ''__getattribute__'', ''__gt__'', ''__hash__'', ''__init__'',
      ''__init_subclass__'', ''__le__'', ''__lt__'', ''__ne__'', ''__new__'', ''__reduce__'',
      ''__reduce_ex__'', ''__repr__'', ''__setattr__'', ''__sizeof__'', ''__str__'',
      ''__subclasshook__'']"

definition hasattr_module :: "(string \<times> pyval) list \<Rightarrow> string \<Rightarrow> bool" where
  "hasattr_module ns name = (map_of ns name \<noteq> None \<or> name \<in> set module_type_attrs)"

definition getattr_module :: "(string \<times> pyval) list \<Rightarrow> string \<Rightarrow> pyval" where
  "getattr_module ns name = (case map_of ns name of Some v \<Rightarrow> v | None \<Rightarrow> PFunction name)"

definition dir_module :: "(string \<times> pyval) list \<Rightarrow> string list" where
  "dir_module ns = map fst ns"

definition setattr_module :: "string \<Rightarrow> string \<Rightarrow> pyval \<Rightarrow> 'fs state \<Rightarrow> 'fs state" where
  "setattr_module m name v st =
     (case modules st m of
        None \<Rightarrow> st
      | Some ns \<Rightarrow>
          st\<lparr>modules := (modules st)
               (m \<mapsto> (if map_of ns name = None then ns @ [(name, v)]
                       else map (\<lambda>(k, x). if k = name then (k, v) else (k, x)) ns))\<rparr>)"

text \<open>
  \<^verbatim>\<open>SingletonBase._setup_module_attributes\<close>: the defining module of the instance's
  class gets a module-level \<^verbatim>\<open>__getattr__\<close> that forwards to the instance, unless
  it has one; \<^verbatim>\<open>__dir__\<close> is installed under the same test, which no module passes.
\<close>

definition setup_module_attributes :: "addr \<Rightarrow> ('fs, unit) comp" where
  "setup_module_attributes self = (\<lambda>st.
     let m = cls_module (inst_cls (heap st ! self)) in
     case modules st m of
       None \<Rightarrow> (Inl (KeyError m), st)
     | Some ns \<Rightarrow>
         let st1 = (if \<not> hasattr_module ns ''__getattr__''
                    then setattr_module m ''__getattr__'' (PFunction ''__getattr__'') st else st);
             st2 = (if \<not> hasattr_module ns ''__dir__''
                    then setattr_module m ''__dir__'' (PFunction ''__dir__'') st1 else st1)
         in (Inr (), st2))"

section \<open>Attributes of values\<close>

text \<open>
  \<^verbatim>\<open>getattr(v, name)\<close> and \<^verbatim>\<open>hasattr(v, name)\<close>. On an
  \<^verbatim>\<open>argparse.Namespace\<close> the lookup is Python's usual one: the three data
  descriptors of the class first (\<^verbatim>\<open>__class__\<close>, \<^verbatim>\<open>__dict__\<close>,
  \<^verbatim>\<open>__weakref__\<close>), then the field of that name, then the other attributes of the
  class (its methods, for example \<^verbatim>\<open>_get_kwargs\<close>), which the environment gives.
  On another value the attributes are those of its class. \<^verbatim>\<open>hasattr\<close> holds
  when \<^verbatim>\<open>getattr\<close> does not raise. (The messages of the errors are written
  without their quotation marks.)
\<close>

definition namespace_data_attr :: "(string \<Rightarrow> pyval option) \<Rightarrow> string \<Rightarrow> pyval option" where
  "namespace_data_attr m name =
     (if name = ''__class__'' then Some (PClass ''Namespace'')
      else if name = ''__dict__'' then Some (PDict m)
      else if name = ''__weakref__'' then Some PNone
      else None)"

definition py_getattr :: "'fs world \<Rightarrow> pyval \<Rightarrow> string \<Rightarrow> error + pyval" where
  "py_getattr w v name =
     (case v of
        PNamespace m \<Rightarrow>
          (case namespace_data_attr m name of
             Some x \<Rightarrow> Inr x
           | None \<Rightarrow>
               (case m name of
                  Some x \<Rightarrow> Inr x
                | None \<Rightarrow>
                    (case class_attr w v name of
                       Some x \<Rightarrow> Inr x
                     | None \<Rightarrow> Inl (AttributeError (''Namespace object has no attribute '' @ name)))))
      | _ \<Rightarrow>
          (case class_attr w v name of
             Some x \<Rightarrow> Inr x
           | None \<Rightarrow> Inl (AttributeError (''object has no attribute '' @ name))))"

definition py_hasattr :: "'fs world \<Rightarrow> pyval \<Rightarrow> string \<Rightarrow> bool" where
  "py_hasattr w v name = (case py_getattr w v name of Inl e \<Rightarrow> False | Inr x \<Rightarrow> True)"

text \<open>
  \<^verbatim>\<open>setattr(namespace, name, value)\<close>: the value becomes the field of that name,
  except under the names of the data descriptors. \<^verbatim>\<open>__class__\<close> takes a class of
  the same layout only (the values that the parser stores are no classes),
  \<^verbatim>\<open>__dict__\<close> a dictionary, and \<^verbatim>\<open>__weakref__\<close> cannot be written.
\<close>

definition namespace_setattr ::
  "(string \<Rightarrow> pyval option) \<Rightarrow> string \<Rightarrow> pyval \<Rightarrow> error + (string \<Rightarrow> pyval option)" where
  "namespace_setattr m name v =
     (if name = ''__class__'' then Inl (TypeError ''__class__ must be set to a class'')
      else if name = ''__dict__'' then
        (case v of PDict d \<Rightarrow> Inr d
         | _ \<Rightarrow> Inl (TypeError ''__dict__ must be set to a dictionary''))
      else if name = ''__weakref__'' then
        Inl (AttributeError ''attribute __weakref__ of Namespace objects is not writable'')
      else Inr (m(name \<mapsto> v)))"

text \<open>\<^verbatim>\<open>name in v\<close> and \<^verbatim>\<open>v[name]\<close> for a string \<^verbatim>\<open>name\<close>.\<close>

definition py_in :: "string \<Rightarrow> pyval \<Rightarrow> error + bool" where
  "py_in name v =
     (case v of
        PDict m \<Rightarrow> Inr (m name \<noteq> None)
      | PNamespace m \<Rightarrow> Inr (m name \<noteq> None)
      | PStr s \<Rightarrow> Inr (str_contains name s)
      | PList xs \<Rightarrow> Inr (PStr name \<in> set xs)
      | _ \<Rightarrow> Inl (TypeError ''argument is not iterable''))"

definition py_getitem :: "pyval \<Rightarrow> string \<Rightarrow> error + pyval" where
  "py_getitem v name =
     (case v of
        PDict m \<Rightarrow> (case m name of None \<Rightarrow> Inl (KeyError name) | Some x \<Rightarrow> Inr x)
      | _ \<Rightarrow> Inl (TypeError ''not subscriptable''))"

text \<open>Python's truth value of an object.\<close>

fun truthy :: "pyval \<Rightarrow> bool" where
  "truthy PNone = False"
| "truthy (PBool b) = b"
| "truthy (PInt i) = (i \<noteq> 0)"
| "truthy (PStr s) = (s \<noteq> [])"
| "truthy (PList xs) = (xs \<noteq> [])"
| "truthy (PDict m) = (m \<noteq> Map.empty)"
| "truthy v = True"

text \<open>
  A path argument of \<^verbatim>\<open>os.path\<close>, of \<^verbatim>\<open>os\<close> and of \<^verbatim>\<open>open\<close> is a
  string or a \<^verbatim>\<open>pathlib\<close> path, which stands for its string; an f-string formats
  a string as itself, a path as its string, and another value by \<^verbatim>\<open>str\<close>.
\<close>

definition as_path :: "pyval \<Rightarrow> error + string" where
  "as_path v = (case v of PStr s \<Rightarrow> Inr s | PPath s \<Rightarrow> Inr s
                | _ \<Rightarrow> Inl (TypeError ''expected str, bytes or os.PathLike object''))"

definition format_value :: "'fs world \<Rightarrow> pyval \<Rightarrow> string" where
  "format_value w v = (case v of PStr s \<Rightarrow> s | PPath s \<Rightarrow> s | _ \<Rightarrow> str_of w v)"

section \<open>The argument parser\<close>

text \<open>
  The part of \<^verbatim>\<open>argparse\<close> (as in CPython 3.11) that
  \<^verbatim>\<open>Confumo._parse_args\<close> uses: optional arguments that store one value
  (\<^verbatim>\<open>add_argument(*flags, type=..., choices=..., default=..., help=...)\<close> with the
  type \<^verbatim>\<open>str\<close> or \<^verbatim>\<open>int\<close>), and the help option that every parser has.
  An option string is a dash and a character, or two dashes and a string. Positional
  arguments, other actions, other keyword arguments and other values of
  \<^verbatim>\<open>nargs\<close> are outside this model, as is a default that is the marker
  \<^verbatim>\<open>argparse.SUPPRESS\<close>. \<^verbatim>\<open>parser.error\<close> ends the process with
  \<^verbatim>\<open>SystemExit(2)\<close>; the help action prints the help and ends it with
  \<^verbatim>\<open>SystemExit(0)\<close>.
\<close>

datatype argtype = TStr | TInt

datatype optname = Short char | Long string

fun optname_string :: "optname \<Rightarrow> string" where
  "optname_string (Short c) = [CHR ''-'', c]"
| "optname_string (Long s) = ''--'' @ s"

record optspec =
  opt_flags :: "optname list"
  opt_type :: argtype
  opt_choices :: "pyval list option"
  opt_default :: pyval
  opt_help :: "string option"

datatype action = HelpAction | StoreAction optspec

record parser =
  description :: string
  option_string_actions :: "(string \<times> action) list"
  actions :: "action list"
  has_negative_number_optionals :: bool

definition ArgumentParser :: "string \<Rightarrow> parser" where
  "ArgumentParser descr =
     \<lparr> description = descr,
       option_string_actions = [(''-h'', HelpAction), (''--help'', HelpAction)],
       actions = [HelpAction],
       has_negative_number_optionals = False \<rparr>"

text \<open>The attribute of the namespace that an option writes: its first long option string
  (else its first option string) without the leading dashes, inner dashes replaced.\<close>

definition dest_of :: "optname list \<Rightarrow> string" where
  "dest_of flags =
     (let option_strings = map optname_string flags;
          long_option_strings = filter (\<lambda>f. 1 < length f \<and> f ! 1 = CHR ''-'') option_strings;
          dest_option_string =
            (if long_option_strings \<noteq> [] then hd long_option_strings else hd option_strings)
      in map (\<lambda>c. if c = CHR ''-'' then CHR ''_'' else c)
           (dropWhile (\<lambda>c. c = CHR ''-'') dest_option_string))"

text \<open>The pattern \<^verbatim>\<open>^-\d+$|^-\d*\.\d+$\<close> of a negative number, matched from the
  start of the string; \<^verbatim>\<open>$\<close> also matches before a line feed that ends the string.\<close>

definition is_digit :: "char \<Rightarrow> bool" where
  "is_digit c = (c \<in> set ''0123456789'')"

definition is_negative_number :: "string \<Rightarrow> bool" where
  "is_negative_number s =
     (case s of
        [] \<Rightarrow> False
      | c # r0 \<Rightarrow>
          (let r = (if r0 \<noteq> [] \<and> last r0 = CHR 0x0A then butlast r0 else r0)
           in c = CHR ''-'' \<and>
              ((r \<noteq> [] \<and> list_all is_digit r)
               \<or> (let a = takeWhile is_digit r; b = dropWhile is_digit r
                   in b \<noteq> [] \<and> hd b = CHR ''.'' \<and> tl b \<noteq> [] \<and> list_all is_digit (tl b)))))"

text \<open>
  \<^verbatim>\<open>parser.add_argument(*flags, **kwargs)\<close>: without a flag the call lacks the
  name of a positional argument; the destination must not be empty; an option string
  that the parser already has is a conflict. The new action is registered under each of
  its option strings.
\<close>

definition add_argument :: "parser \<Rightarrow> optspec \<Rightarrow> error + parser" where
  "add_argument p spec =
     (if opt_flags spec = [] then Inl (TypeError ''missing 1 required positional argument: dest'')
      else if dest_of (opt_flags spec) = [] then Inl (ValueError ''dest= is required'')
      else if list_ex (\<lambda>f. map_of (option_string_actions p) f \<noteq> None)
                (map optname_string (opt_flags spec))
        then Inl (ArgumentError ''conflicting option string'')
      else Inr (p\<lparr> option_string_actions :=
                     option_string_actions p
                       @ map (\<lambda>f. (f, StoreAction spec)) (remdups (map optname_string (opt_flags spec))),
                   actions := actions p @ [StoreAction spec],
                   has_negative_number_optionals :=
                     (has_negative_number_optionals p
                      \<or> list_ex is_negative_number (map optname_string (opt_flags spec))) \<rparr>))"

fun add_arguments :: "parser \<Rightarrow> optspec list \<Rightarrow> error + parser" where
  "add_arguments p [] = Inr p"
| "add_arguments p (spec # specs) =
     (case add_argument p spec of Inl e \<Rightarrow> Inl e | Inr p' \<Rightarrow> add_arguments p' specs)"

text \<open>
  The conversion of an argument string by the option's type
  (\<^verbatim>\<open>parser._get_value\<close>), then the check of the converted value against the
  option's choices (\<^verbatim>\<open>value not in action.choices\<close>, which compares with
  \<^verbatim>\<open>==\<close>, under which \<^verbatim>\<open>True\<close> is 1 and \<^verbatim>\<open>False\<close> is 0); either
  failure is a parser error.
\<close>

definition convert :: "'fs world \<Rightarrow> argtype \<Rightarrow> string \<Rightarrow> pyval option" where
  "convert w t s = (case t of TStr \<Rightarrow> Some (PStr s) | TInt \<Rightarrow> map_option PInt (py_int w s))"

fun py_eq :: "pyval \<Rightarrow> pyval \<Rightarrow> bool" where
  "py_eq (PInt i) (PBool b) = (i = (if b then 1 else 0))"
| "py_eq x y = (x = y)"

definition get_value :: "'fs world \<Rightarrow> optspec \<Rightarrow> string \<Rightarrow> error + pyval" where
  "get_value w spec s =
     (case convert w (opt_type spec) s of
        None \<Rightarrow> Inl (SystemExit 2)
      | Some v \<Rightarrow>
          (case opt_choices spec of
             None \<Rightarrow> Inr v
           | Some cs \<Rightarrow> if list_ex (py_eq v) cs then Inr v else Inl (SystemExit 2)))"

text \<open>
  How the parser reads one argument string (\<^verbatim>\<open>parser._parse_optional\<close>): a
  positional string, an option it knows (with the option string it stands for, the
  separator and the value written in the same string, if any), an abbreviation of
  several options, or a string that looks like an option it does not know.
\<close>

datatype tokclass =
    Positional
  | Unknown
  | Ambiguous
  | Recognized action string "string option" "string option"

text \<open>\<^verbatim>\<open>s.partition('=')\<close>: the part before the first \<^verbatim>\<open>=\<close>, whether there is
  one, and the part after it.\<close>

definition partition_eq :: "string \<Rightarrow> string \<times> bool \<times> string" where
  "partition_eq s = (takeWhile (\<lambda>c. c \<noteq> CHR ''='') s, CHR ''='' \<in> set s,
                     drop 1 (dropWhile (\<lambda>c. c \<noteq> CHR ''='') s))"

definition get_option_tuples ::
  "parser \<Rightarrow> string \<Rightarrow> (action \<times> string \<times> string option \<times> string option) list" where
  "get_option_tuples p arg =
     (if arg ! 1 = CHR ''-''
      then (case partition_eq arg of (option_prefix, sep, explicit_arg) \<Rightarrow>
              map (\<lambda>(f, a). (a, f, if sep then Some ''='' else None,
                                  if sep then Some explicit_arg else None))
                (filter (\<lambda>(f, a). prefix option_prefix f) (option_string_actions p)))
      else concat (map (\<lambda>(f, a).
                     if f = take 2 arg then [(a, f, Some [], Some (drop 2 arg))]
                     else if prefix arg f then [(a, f, None, None)] else [])
                   (option_string_actions p)))"

definition parse_optional :: "parser \<Rightarrow> string \<Rightarrow> tokclass" where
  "parse_optional p arg =
     (if arg = [] then Positional
      else if hd arg \<noteq> CHR ''-'' then Positional
      else case map_of (option_string_actions p) arg of
        Some a \<Rightarrow> Recognized a arg None None
      | None \<Rightarrow>
          if length arg = 1 then Positional
          else case (case partition_eq arg of (option_string, sep, explicit_arg) \<Rightarrow>
                       if sep then map_option (\<lambda>a. Recognized a option_string (Some ''='') (Some explicit_arg))
                                     (map_of (option_string_actions p) option_string)
                       else None) of
            Some r \<Rightarrow> r
          | None \<Rightarrow>
              (case get_option_tuples p arg of
                 [] \<Rightarrow> if is_negative_number arg \<and> \<not> has_negative_number_optionals p then Positional
                       else if CHR '' '' \<in> set arg then Positional
                       else Unknown
               | [(a, f, sep, explicit_arg)] \<Rightarrow> Recognized a f sep explicit_arg
               | _ \<Rightarrow> Ambiguous))"

text \<open>
  The namespace starts from the defaults, in the order the options were added: a default
  is set when the namespace has no attribute of the destination's name yet.
\<close>

fun set_defaults ::
  "'fs world \<Rightarrow> action list \<Rightarrow> (string \<Rightarrow> pyval option) \<Rightarrow> error + (string \<Rightarrow> pyval option)" where
  "set_defaults w [] ns = Inr ns"
| "set_defaults w (HelpAction # as) ns = set_defaults w as ns"
| "set_defaults w (StoreAction spec # as) ns =
     (if \<not> py_hasattr w (PNamespace ns) (dest_of (opt_flags spec))
      then (case namespace_setattr ns (dest_of (opt_flags spec)) (opt_default spec) of
              Inl e \<Rightarrow> Inl e
            | Inr ns' \<Rightarrow> set_defaults w as ns')
      else set_defaults w as ns)"

text \<open>
  The help action prints the help, which formats the description and the help texts of
  the parser, and ends the process.
\<close>

definition help_texts :: "parser \<Rightarrow> string list" where
  "help_texts p =
     description p
     # concat (map (\<lambda>a. case a of
                       HelpAction \<Rightarrow> [''show this help message and exit'']
                     | StoreAction spec \<Rightarrow> (case opt_help spec of None \<Rightarrow> [] | Some h \<Rightarrow> [h]))
                 (actions p))"

definition help_action :: "'fs world \<Rightarrow> parser \<Rightarrow> error" where
  "help_action w p = (case print_help w (help_texts p) of None \<Rightarrow> SystemExit 0 | Some e \<Rightarrow> e)"

text \<open>
  A store action converts and checks its argument string and sets the destination
  (\<^verbatim>\<open>take_action\<close> for an action that stores).
\<close>

definition take_action ::
  "'fs world \<Rightarrow> optspec \<Rightarrow> string \<Rightarrow> (string \<Rightarrow> pyval option) \<Rightarrow> error + (string \<Rightarrow> pyval option)" where
  "take_action w spec arg_string ns =
     (case get_value w spec arg_string of
        Inl e \<Rightarrow> Inl e
      | Inr v \<Rightarrow> namespace_setattr ns (dest_of (opt_flags spec)) v)"

text \<open>
  The help option written with more characters in the same string, as in
  \<^verbatim>\<open>-hx\<close>: the rest of the string is read as further single-dash options. The
  help action comes first among the actions collected, so the process ends with the help
  as soon as the collection succeeds; it fails with a parser error when the rest goes on
  with \<^verbatim>\<open>=\<close> or with a dash after another help option, or ends with a storing
  option that finds no argument in the next string. The result is whether the collection
  succeeds.
\<close>

fun cluster :: "parser \<Rightarrow> string \<Rightarrow> string list \<Rightarrow> bool" where
  "cluster p [] rest = True"
| "cluster p (c # explicit_arg) rest =
     (case map_of (option_string_actions p) [CHR ''-'', c] of
        None \<Rightarrow> True
      | Some HelpAction \<Rightarrow>
          (if explicit_arg = [] then True
           else if hd explicit_arg = CHR ''='' then False
           else if hd explicit_arg = CHR ''-'' then False
           else cluster p explicit_arg rest)
      | Some (StoreAction spec) \<Rightarrow>
          (if explicit_arg = []
           then (case rest of
                   [] \<Rightarrow> False
                 | v # rest' \<Rightarrow> v \<noteq> ''--'' \<and> parse_optional p v = Positional)
           else True))"

text \<open>
  The argument strings are consumed from left to right. A string that is no option
  becomes an extra (the parser declares no positional argument); \<^verbatim>\<open>--\<close> ends the
  options, and it and what follows are extras. An option that stores a value takes the
  value written in the same string or else the next string, which must be a positional
  string. The actions that were taken are recorded.
\<close>

fun consume ::
  "'fs world \<Rightarrow> parser \<Rightarrow> string list \<Rightarrow> (string \<Rightarrow> pyval option) \<Rightarrow> action list \<Rightarrow> string list
     \<Rightarrow> error + ((string \<Rightarrow> pyval option) \<times> action list \<times> string list)" where
  "consume w p [] ns seen_actions extras = Inr (ns, seen_actions, extras)"
| "consume w p (arg # rest) ns seen_actions extras =
     (if arg = ''--'' then Inr (ns, seen_actions, extras @ arg # rest)
      else case parse_optional p arg of
        Positional \<Rightarrow> consume w p rest ns seen_actions (extras @ [arg])
      | Unknown \<Rightarrow> consume w p rest ns seen_actions (extras @ [arg])
      | Ambiguous \<Rightarrow> Inl (SystemExit 2)
      | Recognized HelpAction option_string sep None \<Rightarrow> Inl (help_action w p)
      | Recognized HelpAction option_string sep (Some explicit_arg) \<Rightarrow>
          (if option_string ! 1 \<noteq> CHR ''-'' \<and> explicit_arg \<noteq> []
           then (if sep = Some ''='' \<or> hd explicit_arg = CHR ''-'' then Inl (SystemExit 2)
                 else if cluster p explicit_arg rest then Inl (help_action w p)
                 else Inl (SystemExit 2))
           else Inl (SystemExit 2))
      | Recognized (StoreAction spec) option_string sep (Some explicit_arg) \<Rightarrow>
          (case take_action w spec explicit_arg ns of
             Inl e \<Rightarrow> Inl e
           | Inr ns' \<Rightarrow> consume w p rest ns' (StoreAction spec # seen_actions) extras)
      | Recognized (StoreAction spec) option_string sep None \<Rightarrow>
          (case rest of
             [] \<Rightarrow> Inl (SystemExit 2)
           | v # rest' \<Rightarrow>
               if v \<noteq> ''--'' \<and> parse_optional p v = Positional
               then (case take_action w spec v ns of
                       Inl e \<Rightarrow> Inl e
                     | Inr ns' \<Rightarrow> consume w p rest' ns' (StoreAction spec # seen_actions) extras)
               else Inl (SystemExit 2)))"

text \<open>
  At the end, the default of an action that was not taken is converted by the action's
  type when it is a string and the namespace still holds it under the destination. (The
  code compares the two objects by identity; the model compares the values, which
  differs only when another option of the same destination has stored an equal string.)
\<close>

fun convert_defaults ::
  "'fs world \<Rightarrow> action list \<Rightarrow> action list \<Rightarrow> (string \<Rightarrow> pyval option)
     \<Rightarrow> error + (string \<Rightarrow> pyval option)" where
  "convert_defaults w [] seen_actions ns = Inr ns"
| "convert_defaults w (HelpAction # as) seen_actions ns = convert_defaults w as seen_actions ns"
| "convert_defaults w (StoreAction spec # as) seen_actions ns =
     (case opt_default spec of
        PStr s \<Rightarrow>
          (if StoreAction spec \<notin> set seen_actions
              \<and> py_getattr w (PNamespace ns) (dest_of (opt_flags spec)) = Inr (PStr s)
           then (case convert w (opt_type spec) s of
                   None \<Rightarrow> Inl (SystemExit 2)
                 | Some v \<Rightarrow>
                     (case namespace_setattr ns (dest_of (opt_flags spec)) v of
                        Inl e \<Rightarrow> Inl e
                      | Inr ns' \<Rightarrow> convert_defaults w as seen_actions ns'))
           else convert_defaults w as seen_actions ns)
      | _ \<Rightarrow> convert_defaults w as seen_actions ns)"

text \<open>\<^verbatim>\<open>parser.parse_args(args)\<close>. The argument strings before \<^verbatim>\<open>--\<close> are
  classified before any is consumed, so an ambiguous abbreviation is an error wherever it
  stands; extras that remain at the end are an error.\<close>

definition parser_parse_args ::
  "'fs world \<Rightarrow> parser \<Rightarrow> string list \<Rightarrow> error + (string \<Rightarrow> pyval option)" where
  "parser_parse_args w p args =
     (case set_defaults w (actions p) Map.empty of
        Inl e \<Rightarrow> Inl e
      | Inr namespace \<Rightarrow>
          if list_ex (\<lambda>a. parse_optional p a = Ambiguous) (takeWhile (\<lambda>a. a \<noteq> ''--'') args)
          then Inl (SystemExit 2)
          else case consume w p args namespace [] [] of
            Inl e \<Rightarrow> Inl e
          | Inr (ns, seen_actions, extras) \<Rightarrow>
              (case convert_defaults w (actions p) seen_actions ns of
                 Inl e \<Rightarrow> Inl e
               | Inr ns' \<Rightarrow> if extras \<noteq> [] then Inl (SystemExit 2) else Inr ns'))"

text \<open>
  \<^verbatim>\<open>Confumo._parse_args(self, args=None, additional_args=None)\<close>, as a function of
  \<^verbatim>\<open>self.app_name\<close> and \<^verbatim>\<open>self.config_dir\<close>: the three fixed options, then the
  caller's extra options when the list is given and not empty, then the parse of
  \<^verbatim>\<open>args\<close>, which is \<^verbatim>\<open>sys.argv[1:]\<close> when it is \<^verbatim>\<open>None\<close>.
\<close>

definition log_levels :: "pyval list" where
  "log_levels = [PStr ''DEBUG'', PStr ''INFO'', PStr ''WARNING'', PStr ''ERROR'', PStr ''CRITICAL'']"

definition build_parser :: "'fs world \<Rightarrow> pyval \<Rightarrow> string \<Rightarrow> optspec list option \<Rightarrow> error + parser" where
  "build_parser w app_name config_dir additional_args =
     (case add_argument (ArgumentParser (format_value w app_name @ '' Configuration''))
             \<lparr> opt_flags = [Long ''config''], opt_type = TStr, opt_choices = None,
               opt_default = PNone, opt_help = Some ''Path to the YAML configuration file'' \<rparr> of
        Inl e \<Rightarrow> Inl e
      | Inr p1 \<Rightarrow>
     (case add_argument p1
             \<lparr> opt_flags = [Long ''log_level''], opt_type = TStr, opt_choices = Some log_levels,
               opt_default = PStr ''INFO'', opt_help = Some ''Logging level'' \<rparr> of
        Inl e \<Rightarrow> Inl e
      | Inr p2 \<Rightarrow>
     (case add_argument p2
             \<lparr> opt_flags = [Long ''config_dir''], opt_type = TStr, opt_choices = None,
               opt_default = PStr config_dir,
               opt_help = Some (''Where to load/save config data. Defaults to '' @ config_dir) \<rparr> of
        Inl e \<Rightarrow> Inl e
      | Inr p3 \<Rightarrow>
     (case additional_args of
        None \<Rightarrow> Inr p3
      | Some specs \<Rightarrow> if specs \<noteq> [] then add_arguments p3 specs else Inr p3))))"

definition parse_args ::
  "'fs world \<Rightarrow> pyval \<Rightarrow> string \<Rightarrow> string list option \<Rightarrow> optspec list option
     \<Rightarrow> error + (string \<Rightarrow> pyval option)" where
  "parse_args w app_name config_dir args additional_args =
     (case build_parser w app_name config_dir additional_args of
        Inl e \<Rightarrow> Inl e
      | Inr parser \<Rightarrow>
          parser_parse_args w parser (case args of None \<Rightarrow> argv w | Some a \<Rightarrow> a))"





section \<open>Path normalization and the configuration file\<close>

text \<open>\<^verbatim>\<open>Confumo._is_cygwin\<close>, \<^verbatim>\<open>Confumo._cygwin_to_windows_path\<close> and
  \<^verbatim>\<open>Confumo._ensure_windows_path\<close>. \<^verbatim>\<open>subprocess.run\<close> is called without
  \<^verbatim>\<open>check=True\<close>: it raises when the executable is missing and returns the completed
  process otherwise, whatever its return code.\<close>

definition is_cygwin :: "'fs world \<Rightarrow> bool" where
  "is_cygwin w = str_contains ''cygwin'' (lower (os_getenv_default w ''OSTYPE'' []))"

definition cygwin_to_windows_path :: "'fs world \<Rightarrow> string \<Rightarrow> error + string" where
  "cygwin_to_windows_path w cygwin_path =
     (case cygpath w cygwin_path of
        ExecutableNotFound \<Rightarrow> Inl (FileNotFoundError ''cygpath'')
      | Completed returncode stdout \<Rightarrow> Inr (strip stdout))"

definition ensure_windows_path :: "'fs world \<Rightarrow> string \<Rightarrow> error + string" where
  "ensure_windows_path w path =
     (if \<not> is_cygwin w then Inr (abspath w path) else cygwin_to_windows_path w path)"

text \<open>
  \<^verbatim>\<open>open(v, 'r')\<close> followed by reading the whole file: \<^verbatim>\<open>open\<close> takes a
  string or a path, and an integer as the number of a file descriptor (\<^verbatim>\<open>True\<close>
  is 1 and \<^verbatim>\<open>False\<close> is 0).
\<close>

definition py_open_read :: "'fs world \<Rightarrow> 'fs \<Rightarrow> pyval \<Rightarrow> error + string" where
  "py_open_read w f v =
     (case v of
        PStr p \<Rightarrow> open_read w f p
      | PPath p \<Rightarrow> open_read w f p
      | PInt fd \<Rightarrow> open_read_fd w f fd
      | PBool b \<Rightarrow> open_read_fd w f (if b then 1 else 0)
      | _ \<Rightarrow> Inl (TypeError ''expected str, bytes or os.PathLike object''))"

text \<open>\<^verbatim>\<open>Confumo._read_config_file\<close>: the file is opened for reading and its text is
  given to \<^verbatim>\<open>yaml.safe_load\<close>.\<close>

definition read_config_file :: "'fs world \<Rightarrow> pyval \<Rightarrow> ('fs, pyval) comp" where
  "read_config_file w config_path = (\<lambda>st.
     case py_open_read w (fs st) config_path of
       Inl e \<Rightarrow> (Inl e, st)
     | Inr content \<Rightarrow> (yaml_safe_load w content, st))"

text \<open>The dictionary \<^verbatim>\<open>{k: v for k, v in file_config.items() if v is not None}\<close>.\<close>

definition without_none :: "(string \<Rightarrow> pyval option) \<Rightarrow> (string \<Rightarrow> pyval option)" where
  "without_none m = (\<lambda>k. case m k of None \<Rightarrow> None | Some v \<Rightarrow> if v \<noteq> PNone then Some v else None)"

text \<open>
  \<^verbatim>\<open>Confumo._initialize_configuration\<close>, as a function of \<^verbatim>\<open>self.app_name\<close>
  and of the namespace \<^verbatim>\<open>self.args\<close>. The base dictionary is updated with the
  entries of the file whose value is not \<^verbatim>\<open>None\<close>; a file whose document is not a
  mapping has no \<^verbatim>\<open>items\<close>.
\<close>

definition initialize_configuration ::
  "'fs world \<Rightarrow> addr \<Rightarrow> pyval \<Rightarrow> (string \<Rightarrow> pyval option) \<Rightarrow> ('fs, string \<Rightarrow> pyval option) comp" where
  "initialize_configuration w self app_name args =
     bind (lift (py_getattr w (PNamespace args) ''config_dir'')) (\<lambda>d.
     bind (lift (case d of PStr path \<Rightarrow> ensure_windows_path w path
                 | _ \<Rightarrow> Inl (TypeError ''expected str''))) (\<lambda>config_dir.
     bind (lift (py_getattr w (PNamespace args) ''log_level'')) (\<lambda>log_level.
     bind (lift (py_getattr w (PNamespace args) ''config'')) (\<lambda>config_arg.
     bind (if truthy config_arg
           then bind (read_config_file w config_arg) (\<lambda>file_config.
                  case file_config of
                    PDict m \<Rightarrow>
                      return ([''log_level'' \<mapsto> log_level, ''app_name'' \<mapsto> app_name,
                               ''config_dir'' \<mapsto> PStr config_dir] ++ without_none m)
                  | _ \<Rightarrow> raise (AttributeError ''object has no attribute items''))
           else return [''log_level'' \<mapsto> log_level, ''app_name'' \<mapsto> app_name,
                        ''config_dir'' \<mapsto> PStr config_dir]) (\<lambda>config.
     bind (setup_module_attributes self) (\<lambda>u. return config))))))"

section \<open>Construction and the singleton registry\<close>

text \<open>The value stored as \<^verbatim>\<open>self.additional_args\<close>: \<^verbatim>\<open>None\<close> or the list of
  the specifications, each a dictionary with its flags.\<close>

definition additional_args_value :: "optspec list option \<Rightarrow> pyval" where
  "additional_args_value a =
     (case a of
        None \<Rightarrow> PNone
      | Some specs \<Rightarrow>
          PList (map (\<lambda>spec. PDict [''flags'' \<mapsto> PList (map (\<lambda>f. PStr (optname_string f)) (opt_flags spec))])
                   specs))"

text \<open>\<^verbatim>\<open>Confumo.__init__(self, app_name, additional_args)\<close>. The application name is
  whatever the caller passes; \<^verbatim>\<open>os.path.join\<close> takes it when it is a string or a
  path.\<close>

definition Confumo_init :: "'fs world \<Rightarrow> addr \<Rightarrow> pyval \<Rightarrow> optspec list option \<Rightarrow> ('fs, unit) comp" where
  "Confumo_init w self app_name additional_args =
     bind (\<lambda>st. (Inr (), setattr self ''app_name'' app_name st)) (\<lambda>u.
     bind (\<lambda>st. (Inr (), setattr self ''platform_name'' (PStr (platform_system w)) st)) (\<lambda>u.
     bind (lift (get_default_config_dir w (platform_system w))) (\<lambda>d.
     bind (lift (as_path app_name)) (\<lambda>name.
     bind (\<lambda>st. (Inr (), setattr self ''config_dir'' (PStr (os_path_join w d name)) st)) (\<lambda>u.
     bind (\<lambda>st. (Inr (), setattr self ''additional_args'' (additional_args_value additional_args) st)) (\<lambda>u.
     bind (lift (parse_args w app_name (os_path_join w d name) None additional_args)) (\<lambda>args.
     bind (\<lambda>st. (Inr (), setattr self ''args'' (PNamespace args) st)) (\<lambda>u.
     bind (initialize_configuration w self app_name args) (\<lambda>config.
          (\<lambda>st. (Inr (), setattr self ''config'' (PDict config) st)))))))))))"

text \<open>
  The arguments of a constructor call: each parameter is given or left to its default
  (\<^verbatim>\<open>app_name='confumo'\<close>, \<^verbatim>\<open>additional_args=None\<close>). The call
  \<^verbatim>\<open>cls(*args, **kwargs)\<close> allocates the object and runs \<^verbatim>\<open>__init__\<close> on it.
\<close>

record ctor_args =
  arg_app_name :: "pyval option"
  arg_additional_args :: "optspec list option"

definition construct :: "'fs world \<Rightarrow> cls \<Rightarrow> ctor_args \<Rightarrow> ('fs, addr) comp" where
  "construct w c a = (\<lambda>st.
     let (self, st1) = new_object \<lparr> inst_cls = c, inst_dict = Map.empty \<rparr> st
     in case Confumo_init w self
               (case arg_app_name a of None \<Rightarrow> PStr ''confumo'' | Some n \<Rightarrow> n)
               (arg_additional_args a) st1 of
          (Inl e, st2) \<Rightarrow> (Inl e, st2)
        | (Inr u, st2) \<Rightarrow> (Inr self, st2))"

text \<open>\<^verbatim>\<open>SingletonBase.get_instance(cls, *args, **kwargs)\<close>: the constructor runs only
  when the class is not a key of \<^verbatim>\<open>_instances\<close>, and its result is stored under the
  class once it has returned.\<close>

definition get_instance :: "'fs world \<Rightarrow> cls \<Rightarrow> ctor_args \<Rightarrow> ('fs, addr) comp" where
  "get_instance w c a = (\<lambda>st.
     case instances st c of
       None \<Rightarrow>
         (case construct w c a st of
            (Inl e, st') \<Rightarrow> (Inl e, st')
          | (Inr obj, st') \<Rightarrow> (Inr obj, st'\<lparr>instances := (instances st')(c \<mapsto> obj)\<rparr>))
     | Some obj \<Rightarrow> (Inr obj, st))"

section \<open>Attribute resolution, saving and copying\<close>

text \<open>\<^verbatim>\<open>Confumo.__getattr__(self, name)\<close>, which Python calls for a name that the
  normal lookup does not find.\<close>

definition dunder_getattr :: "'fs world \<Rightarrow> 'fs state \<Rightarrow> addr \<Rightarrow> string \<Rightarrow> error + pyval" where
  "dunder_getattr w st self name =
     (let d = inst_dict (heap st ! self) in
      if name \<in> set [''__getstate__'', ''__setstate__''] then Inl (AttributeError [])
      else case (case d ''config'' of
                   None \<Rightarrow> Inr False
                 | Some config \<Rightarrow> py_in name config) of
        Inl e \<Rightarrow> Inl e
      | Inr True \<Rightarrow> py_getitem (the (d ''config'')) name
      | Inr False \<Rightarrow>
          (case d ''args'' of
             None \<Rightarrow> Inl (AttributeError
                 (cls_name (inst_cls (heap st ! self)) @ '' object has no attribute '' @ name))
           | Some args \<Rightarrow>
               if py_hasattr w args name then py_getattr w args name
               else Inl (AttributeError
                 (cls_name (inst_cls (heap st ! self)) @ '' object has no attribute '' @ name))))"



text \<open>
  \<^verbatim>\<open>copy.copy(self)\<close> on an instance of a class without \<^verbatim>\<open>__copy__\<close> and
  without \<^verbatim>\<open>__getstate__\<close>/\<^verbatim>\<open>__setstate__\<close> of its own: a new object of the
  same class whose dictionary holds the entries of the original's.
\<close>

definition copy_copy :: "addr \<Rightarrow> ('fs, addr) comp" where
  "copy_copy self = (\<lambda>st.
     case new_object \<lparr> inst_cls = inst_cls (heap st ! self),
                       inst_dict = inst_dict (heap st ! self) \<rparr> st of
       (a, st') \<Rightarrow> (Inr a, st'))"

definition is_module :: "pyval \<Rightarrow> bool" where
  "is_module v = (case v of PModule m \<Rightarrow> True | _ \<Rightarrow> False)"

text \<open>The loop of \<^verbatim>\<open>copy\<close> over \<^verbatim>\<open>dir(module)\<close>, which sets on the instance
  every module attribute whose name does not start with two underscores.\<close>

fun promote :: "addr \<Rightarrow> (string \<times> pyval) list \<Rightarrow> string list \<Rightarrow> 'fs state \<Rightarrow> 'fs state" where
  "promote self ns [] st = st"
| "promote self ns (attr_name # names) st =
     promote self ns names
       (if \<not> prefix ''__'' attr_name \<and> hasattr_module ns attr_name
        then setattr self attr_name (getattr_module ns attr_name) st else st)"

text \<open>
  \<^verbatim>\<open>Confumo.copy\<close>: the promotion loop on the receiver, the dictionary of its
  attributes that are not modules, the shallow copy of the receiver, and the update of
  the copy's dictionary with that dictionary.
\<close>

definition copy :: "addr \<Rightarrow> ('fs, addr) comp" where
  "copy self = (\<lambda>st.
     case modules st (cls_module (inst_cls (heap st ! self))) of
       None \<Rightarrow> (Inl (KeyError (cls_module (inst_cls (heap st ! self)))), st)
     | Some ns \<Rightarrow>
         (let st1 = promote self ns (dir_module ns) st;
              shallow_copy = (\<lambda>k. case inst_dict (heap st1 ! self) k of
                                    None \<Rightarrow> None
                                  | Some v \<Rightarrow> if \<not> is_module v then Some v else None)
          in case copy_copy self st1 of
               (Inl e, st2) \<Rightarrow> (Inl e, st2)
             | (Inr copied_instance, st2) \<Rightarrow>
                 (Inr copied_instance,
                  st2\<lparr>heap := (heap st2)[copied_instance :=
                         (heap st2 ! copied_instance)
                           \<lparr>inst_dict := inst_dict (heap st2 ! copied_instance) ++ shallow_copy\<rparr>]\<rparr>)))"

section \<open>A machine to run the code on\<close>

text \<open>
  The rest of the theory applies the model to concrete processes. They run on a POSIX
  machine with CPython 3.11, of which this section defines what the environment needs:
  the path functions of \<^verbatim>\<open>posixpath\<close>, a file system, \<^verbatim>\<open>int\<close>, the class
  attributes of a namespace, and stand-ins for PyYAML, for \<^verbatim>\<open>str\<close> and for the
  formatting of the help.
\<close>

subsection \<open>Paths\<close>

text \<open>\<^verbatim>\<open>s.split('/')\<close>, \<^verbatim>\<open>'/'.join(xs)\<close> and \<^verbatim>\<open>s.rstrip('/')\<close>.\<close>

fun split_slash :: "string \<Rightarrow> string list" where
  "split_slash [] = [[]]"
| "split_slash (c # cs) =
     (if c = CHR ''/'' then [] # split_slash cs
      else (case split_slash cs of [] \<Rightarrow> [[c]] | x # xs \<Rightarrow> (c # x) # xs))"

fun join_slash :: "string list \<Rightarrow> string" where
  "join_slash [] = []"
| "join_slash [x] = x"
| "join_slash (x # y # ys) = x @ ''/'' @ join_slash (y # ys)"

definition rstrip_slash :: "string \<Rightarrow> string" where
  "rstrip_slash s = rev (dropWhile (\<lambda>c. c = CHR ''/'') (rev s))"

text \<open>
  \<^verbatim>\<open>posixpath.join\<close> (two arguments), \<^verbatim>\<open>posixpath.split\<close>,
  \<^verbatim>\<open>posixpath.normpath\<close>, \<^verbatim>\<open>posixpath.abspath\<close> for a given working
  directory, and \<^verbatim>\<open>posixpath.expanduser\<close> for a given home directory on a machine
  that knows no other user.
\<close>

definition posix_join :: "string \<Rightarrow> string \<Rightarrow> string" where
  "posix_join a b =
     (if prefix ''/'' b then b
      else if a = [] \<or> last a = CHR ''/'' then a @ b
      else a @ ''/'' @ b)"

definition posix_split :: "string \<Rightarrow> string \<times> string" where
  "posix_split p =
     (let tail = rev (takeWhile (\<lambda>c. c \<noteq> CHR ''/'') (rev p));
          head = rev (dropWhile (\<lambda>c. c \<noteq> CHR ''/'') (rev p))
      in (if head \<noteq> [] \<and> \<not> list_all (\<lambda>c. c = CHR ''/'') head
          then rstrip_slash head else head, tail))"

definition posix_normpath :: "string \<Rightarrow> string" where
  "posix_normpath path =
     (if path = [] then ''.''
      else
        (let initial_slashes =
               (if prefix ''/'' path
                then (if prefix ''//'' path \<and> \<not> prefix ''///'' path then 2 else 1)
                else (0::nat));
             new_comps =
               foldl (\<lambda>new_comps comp.
                        if comp = [] \<or> comp = ''.'' then new_comps
                        else if comp \<noteq> ''..'' \<or> (initial_slashes = 0 \<and> new_comps = [])
                                \<or> (new_comps \<noteq> [] \<and> last new_comps = ''..'')
                          then new_comps @ [comp]
                        else if new_comps \<noteq> [] then butlast new_comps
                        else new_comps)
                 [] (split_slash path);
             joined = replicate initial_slashes CHR ''/'' @ join_slash new_comps
         in if joined = [] then ''.'' else joined))"

definition posix_abspath :: "string \<Rightarrow> string \<Rightarrow> string" where
  "posix_abspath cwd path =
     posix_normpath (if prefix ''/'' path then path else posix_join cwd path)"

definition posix_expanduser :: "string \<Rightarrow> string \<Rightarrow> string" where
  "posix_expanduser home path =
     (if \<not> prefix ''~'' path then path
      else if length (takeWhile (\<lambda>c. c \<noteq> CHR ''/'') path) = 1
        then (let expanded = rstrip_slash home @ dropWhile (\<lambda>c. c \<noteq> CHR ''/'') path
              in if expanded = [] then ''/'' else expanded)
      else path)"

subsection \<open>The file system\<close>

text \<open>
  Directories and regular files with their contents, each named by the list of the
  components that lead to it from the root (no symbolic links, no permissions, no other
  process). The working directory is where a relative path starts.
\<close>

record posix_fs =
  dirs :: "string list set"
  files :: "string list \<Rightarrow> string option"
  cwd :: "string list"

text \<open>
  The walk along the components of a path \<^verbatim>\<open>p\<close>: every component is looked up in
  a directory that has to exist; an empty component and \<^verbatim>\<open>.\<close> stay, \<^verbatim>\<open>..\<close>
  goes up. The result names the place the path leads to, where there may be nothing yet.
\<close>

fun walk :: "posix_fs \<Rightarrow> string \<Rightarrow> string list \<Rightarrow> string list \<Rightarrow> error + string list" where
  "walk f p cur [] = Inr cur"
| "walk f p cur (c # cs) =
     (if cur \<notin> dirs f
      then Inl (if files f cur \<noteq> None then NotADirectoryError p else FileNotFoundError p)
      else if c = [] \<or> c = ''.'' then walk f p cur cs
      else if c = ''..'' then walk f p (butlast cur) cs
      else walk f p (cur @ [c]) cs)"

definition lookup :: "posix_fs \<Rightarrow> string \<Rightarrow> error + string list" where
  "lookup f p =
     (if p = [] then Inl (FileNotFoundError p)
      else walk f p (if prefix ''/'' p then [] else cwd f) (split_slash p))"

definition posix_exists :: "posix_fs \<Rightarrow> string \<Rightarrow> bool" where
  "posix_exists f p =
     (case lookup f p of
        Inl e \<Rightarrow> False
      | Inr node \<Rightarrow> node \<in> dirs f \<or> files f node \<noteq> None)"

text \<open>\<^verbatim>\<open>os.mkdir\<close>, which accepts slashes after the name of the new directory.\<close>

definition posix_mkdir :: "posix_fs \<Rightarrow> string \<Rightarrow> (error + unit) \<times> posix_fs" where
  "posix_mkdir f p =
     (case lookup f (if rstrip_slash p = [] then p else rstrip_slash p) of
        Inl e \<Rightarrow> (Inl e, f)
      | Inr node \<Rightarrow>
          if node \<in> dirs f \<or> files f node \<noteq> None then (Inl (FileExistsError p), f)
          else (Inr (), f\<lparr>dirs := insert node (dirs f)\<rparr>))"

text \<open>
  \<^verbatim>\<open>os.makedirs(name)\<close>: the path is split into the leaf and what leads to it;
  when that does not exist it is made first, by the same function (a
  \<^verbatim>\<open>FileExistsError\<close> of that call is swallowed); then the leaf is made with
  \<^verbatim>\<open>mkdir\<close>, unless it is \<^verbatim>\<open>.\<close> below a directory just made.
\<close>

definition leaf_split :: "string \<Rightarrow> string \<times> string" where
  "leaf_split name =
     (if snd (posix_split name) = [] then posix_split (fst (posix_split name))
      else posix_split name)"

lemma posix_split_head_le: "length (fst (posix_split p)) \<le> length p"
proof -
  have a: "length (dropWhile P (rev p)) \<le> length p" for P
    using length_dropWhile_le [of P "rev p"] by simp
  have b: "length (dropWhile Q (dropWhile P (rev p))) \<le> length p" for P Q
    using length_dropWhile_le [of Q "dropWhile P (rev p)"] a [of P] by linarith
  show ?thesis
    unfolding posix_split_def rstrip_slash_def Let_def using a b by simp
qed

lemma posix_split_head_less:
  assumes "snd (posix_split p) \<noteq> []"
  shows "length (fst (posix_split p)) < length p"
proof -
  let ?P = "\<lambda>c. c \<noteq> CHR ''/''"
  from assms have t: "takeWhile ?P (rev p) \<noteq> []"
    by (simp add: posix_split_def Let_def)
  have "length (takeWhile ?P (rev p)) + length (dropWhile ?P (rev p)) = length p"
    using takeWhile_dropWhile_id [of ?P "rev p"]
    by (metis length_append length_rev)
  with t have a: "length (dropWhile ?P (rev p)) < length p"
    by (cases "takeWhile ?P (rev p)") auto
  have b: "length (dropWhile Q (dropWhile ?P (rev p))) < length p" for Q
    using length_dropWhile_le [of Q "dropWhile ?P (rev p)"] a by linarith
  show ?thesis
    unfolding posix_split_def rstrip_slash_def Let_def using a b by simp
qed

lemma leaf_split_head_less:
  assumes "snd (leaf_split name) \<noteq> []"
  shows "length (fst (leaf_split name)) < length name"
proof (cases "snd (posix_split name) = []")
  case True
  with assms have "snd (posix_split (fst (posix_split name))) \<noteq> []"
    by (simp add: leaf_split_def)
  then have "length (fst (posix_split (fst (posix_split name)))) < length (fst (posix_split name))"
    by (rule posix_split_head_less)
  with posix_split_head_le [of name] True show ?thesis
    by (simp add: leaf_split_def)
next
  case False
  then show ?thesis
    using posix_split_head_less [of name] by (simp add: leaf_split_def)
qed

function posix_makedirs :: "posix_fs \<Rightarrow> string \<Rightarrow> (error + unit) \<times> posix_fs" where
  "posix_makedirs f name =
     (let head = fst (leaf_split name);
          tail = snd (leaf_split name)
      in if head \<noteq> [] \<and> tail \<noteq> [] \<and> \<not> posix_exists f head
         then (case posix_makedirs f head of
                 (Inl (FileExistsError q), f') \<Rightarrow>
                   if tail = ''.'' then (Inr (), f') else posix_mkdir f' name
               | (Inl e, f') \<Rightarrow> (Inl e, f')
               | (Inr u, f') \<Rightarrow>
                   if tail = ''.'' then (Inr (), f') else posix_mkdir f' name)
         else posix_mkdir f name)"
  by pat_completeness auto
termination
proof (relation "measure (\<lambda>(f, name). length name)")
  show "wf (measure (\<lambda>(f, name). length name))" by simp
next
  fix f :: posix_fs and name x xa :: string
  assume "x = fst (leaf_split name)" and "xa = snd (leaf_split name)"
    and "x \<noteq> [] \<and> xa \<noteq> [] \<and> \<not> posix_exists f x"
  then show "((f, x), (f, name)) \<in> measure (\<lambda>(f, name). length name)"
    using leaf_split_head_less [of name] by simp
qed

declare posix_makedirs.simps [simp del]

text \<open>
  \<^verbatim>\<open>open(p, 'w')\<close>, which makes an empty file or empties the file that is there
  and refuses a directory and a path that ends with a slash; writing a text to the file
  just opened; and \<^verbatim>\<open>open(p, 'r')\<close> followed by reading the whole file.
\<close>

definition posix_open_write :: "posix_fs \<Rightarrow> string \<Rightarrow> (error + unit) \<times> posix_fs" where
  "posix_open_write f p =
     (case lookup f (if rstrip_slash p = [] then p else rstrip_slash p) of
        Inl e \<Rightarrow> (Inl e, f)
      | Inr node \<Rightarrow>
          if node \<in> dirs f \<or> (p \<noteq> [] \<and> last p = CHR ''/'') then (Inl (IsADirectoryError p), f)
          else (Inr (), f\<lparr>files := (files f)(node \<mapsto> [])\<rparr>))"

definition posix_write_file :: "posix_fs \<Rightarrow> string \<Rightarrow> string \<Rightarrow> (error + unit) \<times> posix_fs" where
  "posix_write_file f p content =
     (case lookup f p of
        Inl e \<Rightarrow> (Inl e, f)
      | Inr node \<Rightarrow>
          if node \<in> dirs f then (Inl (IsADirectoryError p), f)
          else if files f node = None then (Inl (FileNotFoundError p), f)
          else (Inr (), f\<lparr>files := (files f)(node \<mapsto> content)\<rparr>))"

definition posix_open_read :: "posix_fs \<Rightarrow> string \<Rightarrow> error + string" where
  "posix_open_read f p =
     (case lookup f p of
        Inl e \<Rightarrow> Inl e
      | Inr node \<Rightarrow>
          if node \<in> dirs f then Inl (IsADirectoryError p)
          else (case files f node of
                  None \<Rightarrow> Inl (FileNotFoundError p)
                | Some content \<Rightarrow> Inr content))"

text \<open>No file descriptor of the process is open for reading.\<close>

definition posix_open_read_fd :: "posix_fs \<Rightarrow> int \<Rightarrow> error + string" where
  "posix_open_read_fd f fd = Inl (OSError ''Bad file descriptor'')"

subsection \<open>Python\<close>

text \<open>
  \<^verbatim>\<open>int(s)\<close> for a string: white space around the literal is dropped, a sign may
  lead, and single underscores may stand between the decimal digits.
\<close>

definition digit_val :: "char \<Rightarrow> nat option" where
  "digit_val c = map_of (zip ''0123456789'' [0, 1, 2, 3, 4, 5, 6, 7, 8, 9]) c"

fun digits_value :: "string \<Rightarrow> nat \<Rightarrow> nat option" where
  "digits_value [] acc = Some acc"
| "digits_value (c # cs) acc =
     (case digit_val c of None \<Rightarrow> None | Some d \<Rightarrow> digits_value cs (10 * acc + d))"

definition int_space :: "char \<Rightarrow> bool" where
  "int_space c = (c \<in> set [CHR '' '', CHR 0x09, CHR 0x0A, CHR 0x0B, CHR 0x0C, CHR 0x0D,
                            CHR 0x85, CHR 0xA0])"

definition int_of_string :: "string \<Rightarrow> int option" where
  "int_of_string s =
     (let t = rev (dropWhile int_space (rev (dropWhile int_space s)));
          negative = (t \<noteq> [] \<and> hd t = CHR ''-'');
          body = (if t \<noteq> [] \<and> hd t \<in> set ''+-'' then tl t else t)
      in if body = [] \<or> hd body = CHR ''_'' \<or> last body = CHR ''_'' \<or> str_contains ''__'' body
         then None
         else map_option (\<lambda>n. if negative then - int n else int n)
                (digits_value (filter (\<lambda>c. c \<noteq> CHR ''_'') body) 0))"

text \<open>The decimal numeral of an integer.\<close>

fun string_of_nat :: "nat \<Rightarrow> string" where
  "string_of_nat n =
     (if n < 10 then [''0123456789'' ! n]
      else string_of_nat (n div 10) @ [''0123456789'' ! (n mod 10)])"

declare string_of_nat.simps [simp del]

definition string_of_int :: "int \<Rightarrow> string" where
  "string_of_int i = (if i < 0 then ''-'' @ string_of_nat (nat (- i)) else string_of_nat (nat i))"

text \<open>
  The attributes that the class gives a namespace, apart from the three data descriptors
  (\<^verbatim>\<open>dir(argparse.Namespace())\<close> in CPython 3.11); a method stands as a
  function object of its name. For the values of other classes the processes below look
  up no attribute.
\<close>

definition namespace_class_attrs :: "(string \<times> pyval) list" where
  "namespace_class_attrs =
     map (\<lambda>n. (n, PFunction n))
       [''__contains__'', ''__delattr__'', ''__dir__'', ''__eq__'', ''__format__'', ''__ge__'',
        ''__getattribute__'', ''__getstate__'', ''__gt__'', ''__init__'', ''__init_subclass__'',
        ''__le__'', ''__lt__'', ''__ne__'', ''__new__'', ''__reduce__'', ''__reduce_ex__'',
        ''__repr__'', ''__setattr__'', ''__sizeof__'', ''__str__'', ''__subclasshook__'',
        ''_get_args'', ''_get_kwargs'']
     @ [(''__doc__'', PStr (''Simple object for storing attributes.'' @ [CHR 0x0A, CHR 0x0A]
                            @ ''    Implements equality by attribute names and values, and provides a simple''
                            @ [CHR 0x0A] @ ''    string representation.'' @ [CHR 0x0A] @ ''    '')),
        (''__hash__'', PNone),
        (''__module__'', PStr ''argparse'')]"

definition python_class_attr :: "pyval \<Rightarrow> string \<Rightarrow> pyval option" where
  "python_class_attr v name =
     (case v of PNamespace m \<Rightarrow> map_of namespace_class_attrs name | _ \<Rightarrow> None)"

text \<open>\<^verbatim>\<open>str(v)\<close>; a list, a dictionary and a namespace are abbreviated.\<close>

definition python_str :: "pyval \<Rightarrow> string" where
  "python_str v =
     (case v of
        PNone \<Rightarrow> ''None''
      | PBool b \<Rightarrow> (if b then ''True'' else ''False'')
      | PInt i \<Rightarrow> string_of_int i
      | PStr s \<Rightarrow> s
      | PPath s \<Rightarrow> s
      | PList xs \<Rightarrow> ''[...]''
      | PDict m \<Rightarrow> ''{...}''
      | PNamespace m \<Rightarrow> ''Namespace(...)''
      | PModule m \<Rightarrow> ''<module '' @ m @ ''>''
      | PClass c \<Rightarrow> ''<class '' @ c @ ''>''
      | PFunction f \<Rightarrow> ''<function '' @ f @ ''>'')"

text \<open>
  The help is printed when no text of the parser holds a percent sign. (argparse formats
  the texts with \<^verbatim>\<open>%\<close>; this stand-in refuses every text with a percent sign,
  though some are valid formats.)
\<close>

definition python_print_help :: "string list \<Rightarrow> error option" where
  "python_print_help texts =
     (if list_ex (\<lambda>t. CHR ''%'' \<in> set t) texts
      then Some (ValueError ''unsupported format character'') else None)"

subsection \<open>A stand-in for PyYAML\<close>

text \<open>
  \<^verbatim>\<open>yaml.dump\<close> and \<^verbatim>\<open>yaml.safe_load\<close> on the documents that the processes
  below write and read: block mappings, one \<^verbatim>\<open>key: value\<close> per line, of strings,
  integers, booleans and \<^verbatim>\<open>null\<close>. A dictionary is a function here, so the
  stand-in writes the keys of a fixed list, in PyYAML's sorted order. A string of
  letters, digits and the characters \<^verbatim>\<open>/ . _ -\<close> that starts with a letter or a
  slash and is no keyword of YAML is written plain, any other string between single
  quotes (PyYAML writes more strings plain). A value that is no YAML data is written with
  a tag of Python, as PyYAML does: a \<^verbatim>\<open>pathlib\<close> path as the tag
  \<^verbatim>\<open>!!python/object/apply:pathlib.PosixPath\<close> followed by the list of its parts.
  \<^verbatim>\<open>safe_load\<close> refuses such a tag. (Lists and nested dictionaries are abbreviated
  by the writer, and the reader refuses what it does not read.)
\<close>

definition yaml_keys :: "string list" where
  "yaml_keys = [''app_name'', ''config_dir'', ''custom_value'', ''extra'', ''log_level'']"

definition is_plain :: "string \<Rightarrow> bool" where
  "is_plain s =
     (s \<noteq> []
      \<and> hd s \<in> set ''abcdefghijklmnopqrstuvwxyzABCDEFGHIJKLMNOPQRSTUVWXYZ/''
      \<and> list_all (\<lambda>c. c \<in> set ''abcdefghijklmnopqrstuvwxyzABCDEFGHIJKLMNOPQRSTUVWXYZ0123456789/._-'') s
      \<and> lower s \<notin> set [''null'', ''true'', ''false'', ''yes'', ''no'', ''on'', ''off''])"

definition quote :: "string \<Rightarrow> string" where
  "quote s = [CHR 0x27] @ concat (map (\<lambda>c. if c = CHR 0x27 then [c, c] else [c]) s) @ [CHR 0x27]"

fun unquote :: "string \<Rightarrow> string" where
  "unquote (c # d # r) = (if c = CHR 0x27 \<and> d = CHR 0x27 then c # unquote r else c # unquote (d # r))"
| "unquote r = r"

definition dump_scalar :: "pyval \<Rightarrow> string" where
  "dump_scalar v =
     (case v of
        PNone \<Rightarrow> ''null''
      | PBool b \<Rightarrow> (if b then ''true'' else ''false'')
      | PInt i \<Rightarrow> string_of_int i
      | PStr s \<Rightarrow> (if is_plain s then s else quote s)
      | PPath s \<Rightarrow> ''!!python/object/apply:pathlib.PosixPath''
      | PList xs \<Rightarrow> ''[...]''
      | PDict m \<Rightarrow> ''{...}''
      | PNamespace m \<Rightarrow> ''!!python/object:argparse.Namespace''
      | PModule m \<Rightarrow> ''!!python/module:'' @ m
      | PClass c \<Rightarrow> ''!!python/name:'' @ c
      | PFunction f \<Rightarrow> ''!!python/name:'' @ f)"

definition path_parts :: "string \<Rightarrow> string list" where
  "path_parts s =
     (if prefix ''/'' s then [''/''] else [])
     @ filter (\<lambda>c. c \<noteq> [] \<and> c \<noteq> ''.'') (split_slash s)"

definition dump_entry :: "string \<Rightarrow> pyval \<Rightarrow> string" where
  "dump_entry k v =
     k @ '': '' @ dump_scalar v @ [CHR 0x0A]
     @ (case v of
          PPath s \<Rightarrow> concat (map (\<lambda>part. ''- '' @ dump_scalar (PStr part) @ [CHR 0x0A]) (path_parts s))
        | _ \<Rightarrow> [])"

definition pyyaml_dump :: "pyval \<Rightarrow> string" where
  "pyyaml_dump v =
     (case v of
        PDict m \<Rightarrow>
          (let text = concat (map (\<lambda>k. case m k of None \<Rightarrow> [] | Some x \<Rightarrow> dump_entry k x) yaml_keys)
           in if text = [] then ''{}'' @ [CHR 0x0A] else text)
      | _ \<Rightarrow> dump_scalar v @ [CHR 0x0A])"

fun split_lines :: "string \<Rightarrow> string list" where
  "split_lines [] = []"
| "split_lines (c # cs) =
     (if c = CHR 0x0A then [] # split_lines cs
      else (case split_lines cs of [] \<Rightarrow> [[c]] | x # xs \<Rightarrow> (c # x) # xs))"

definition load_scalar :: "string \<Rightarrow> error + pyval" where
  "load_scalar s =
     (if s = [] \<or> s = ''null'' \<or> s = ''~'' then Inr PNone
      else if s \<in> set [''true'', ''True'', ''TRUE'', ''yes'', ''Yes'', ''YES'', ''on'', ''On'', ''ON'']
        then Inr (PBool True)
      else if s \<in> set [''false'', ''False'', ''FALSE'', ''no'', ''No'', ''NO'', ''off'', ''Off'', ''OFF'']
        then Inr (PBool False)
      else if is_plain s then Inr (PStr s)
      else if 2 \<le> length s \<and> hd s = CHR 0x27 \<and> last s = CHR 0x27
        then Inr (PStr (unquote (butlast (tl s))))
      else if prefix ''!!'' s
        then Inl (YAMLError (''could not determine a constructor for the tag '' @ s))
      else if list_all (\<lambda>c. digit_val c \<noteq> None) s \<and> (s = ''0'' \<or> hd s \<noteq> CHR ''0'')
        then (case digits_value s 0 of None \<Rightarrow> Inl (YAMLError s) | Some n \<Rightarrow> Inr (PInt (int n)))
      else Inl (YAMLError s))"

fun load_lines :: "string list \<Rightarrow> (string \<Rightarrow> pyval option) \<Rightarrow> error + (string \<Rightarrow> pyval option)" where
  "load_lines [] m = Inr m"
| "load_lines (l # ls) m =
     (let key = takeWhile (\<lambda>c. c \<noteq> CHR '':'') l;
          rest = dropWhile (\<lambda>c. c \<noteq> CHR '':'') l
      in if \<not> is_plain key \<or> \<not> (rest = '':'' \<or> prefix '': '' rest) then Inl (YAMLError l)
         else (case load_scalar (drop 2 rest) of
                 Inl e \<Rightarrow> Inl e
               | Inr v \<Rightarrow> load_lines ls (m(key \<mapsto> v))))"

definition pyyaml_safe_load :: "string \<Rightarrow> error + pyval" where
  "pyyaml_safe_load text =
     (if split_lines text = [] then Inr PNone
      else if split_lines text = [''{}''] then Inr (PDict Map.empty)
      else (case load_lines (split_lines text) Map.empty of
              Inl e \<Rightarrow> Inl e
            | Inr m \<Rightarrow> Inr (PDict m)))"

section \<open>Concrete processes\<close>

text \<open>
  The class \<^verbatim>\<open>Confumo\<close> of the module \<^verbatim>\<open>confumo.confumo\<close>, and the
  namespace of that module after its import: the names Python gives every module (the
  loader, the spec, the cache path and the builtins stand as \<^verbatim>\<open>None\<close>: no code
  here reads a name that starts with two underscores), the seven imported modules and the
  three classes.
\<close>

definition Confumo :: cls where
  "Confumo = Cls ''Confumo'' ''confumo.confumo''"

definition confumo_module :: "(string \<times> pyval) list" where
  "confumo_module =
     [(''__name__'', PStr ''confumo.confumo''),
      (''__doc__'', PNone),
      (''__package__'', PStr ''confumo''),
      (''__loader__'', PNone),
      (''__spec__'', PNone),
      (''__file__'', PStr ''confumo/confumo.py''),
      (''__cached__'', PNone),
      (''__builtins__'', PNone),
      (''argparse'', PModule ''argparse''),
      (''deepcopy_module'', PModule ''copy''),
      (''os'', PModule ''os''),
      (''platform'', PModule ''platform''),
      (''subprocess'', PModule ''subprocess''),
      (''sys'', PModule ''sys''),
      (''yaml'', PModule ''yaml''),
      (''SingletonBase'', PClass ''SingletonBase''),
      (''ConfumoError'', PClass ''ConfumoError''),
      (''Confumo'', PClass ''Confumo'')]"

text \<open>A Linux process of the user \<^verbatim>\<open>u\<close>, started without arguments in the home
  directory, where nothing but that directory exists yet.\<close>

definition linux_world :: "posix_fs world" where
  "linux_world =
     \<lparr> platform_system = ''Linux'',
       environ = [''HOME'' \<mapsto> ''/home/u''],
       argv = [],
       cygpath = (\<lambda>p. ExecutableNotFound),
       expanduser = posix_expanduser ''/home/u'',
       abspath = posix_abspath ''/home/u'',
       os_path_join = posix_join,
       yaml_safe_load = pyyaml_safe_load,
       yaml_dump = pyyaml_dump,
       str_of = python_str,
       py_int = int_of_string,
       print_help = python_print_help,
       class_attr = python_class_attr,
       os_path_exists = posix_exists,
       os_makedirs = posix_makedirs,
       open_write = posix_open_write,
       write_file = posix_write_file,
       open_read = posix_open_read,
       open_read_fd = posix_open_read_fd \<rparr>"

definition home_fs :: posix_fs where
  "home_fs = \<lparr> dirs = {[], [''home''], [''home'', ''u'']}, files = Map.empty,
               cwd = [''home'', ''u''] \<rparr>"

definition start_state :: "posix_fs state" where
  "start_state =
     \<lparr> heap = [],
       instances = Map.empty,
       modules = [''confumo.confumo'' \<mapsto> confumo_module],
       fs = home_fs \<rparr>"

text \<open>
  The namespace, the configuration map, the instance and the state that the first
  \<^verbatim>\<open>Confumo.get_instance(app_name=v)\<close> of that process leaves, where \<^verbatim>\<open>d\<close> is
  the configuration directory of the application.
\<close>

definition app_namespace :: "string \<Rightarrow> string \<Rightarrow> pyval option" where
  "app_namespace d =
     [''config'' \<mapsto> PNone, ''log_level'' \<mapsto> PStr ''INFO'', ''config_dir'' \<mapsto> PStr d]"

definition app_config :: "pyval \<Rightarrow> string \<Rightarrow> string \<Rightarrow> pyval option" where
  "app_config v d =
     [''log_level'' \<mapsto> PStr ''INFO'', ''app_name'' \<mapsto> v,
      ''config_dir'' \<mapsto> PStr (posix_abspath ''/home/u'' d)]"

definition app_object :: "pyval \<Rightarrow> string \<Rightarrow> pyobject" where
  "app_object v d =
     \<lparr> inst_cls = Confumo,
       inst_dict =
         [''app_name'' \<mapsto> v,
          ''platform_name'' \<mapsto> PStr ''Linux'',
          ''config_dir'' \<mapsto> PStr d,
          ''additional_args'' \<mapsto> PNone,
          ''args'' \<mapsto> PNamespace (app_namespace d),
          ''config'' \<mapsto> PDict (app_config v d)] \<rparr>"

definition app_state :: "pyval \<Rightarrow> string \<Rightarrow> posix_fs state" where
  "app_state v d =
     \<lparr> heap = [app_object v d],
       instances = [Confumo \<mapsto> 0],
       modules = [''confumo.confumo'' \<mapsto> confumo_module @ [(''__getattr__'', PFunction ''__getattr__'')]],
       fs = home_fs \<rparr>"

text \<open>The three options that every parser of \<^verbatim>\<open>_parse_args\<close> has, and the
  parser that the method builds when the caller declares no further option.\<close>

definition config_spec :: optspec where
  "config_spec =
     \<lparr> opt_flags = [Long ''config''], opt_type = TStr, opt_choices = None,
       opt_default = PNone, opt_help = Some ''Path to the YAML configuration file'' \<rparr>"

definition log_level_spec :: optspec where
  "log_level_spec =
     \<lparr> opt_flags = [Long ''log_level''], opt_type = TStr, opt_choices = Some log_levels,
       opt_default = PStr ''INFO'', opt_help = Some ''Logging level'' \<rparr>"

definition config_dir_spec :: "string \<Rightarrow> optspec" where
  "config_dir_spec d =
     \<lparr> opt_flags = [Long ''config_dir''], opt_type = TStr, opt_choices = None,
       opt_default = PStr d,
       opt_help = Some (''Where to load/save config data. Defaults to '' @ d) \<rparr>"

definition fixed_actions :: "string \<Rightarrow> action list" where
  "fixed_actions d =
     [HelpAction, StoreAction config_spec, StoreAction log_level_spec,
      StoreAction (config_dir_spec d)]"

definition fixed_parser :: "string \<Rightarrow> string \<Rightarrow> parser" where
  "fixed_parser descr d =
     \<lparr> description = descr,
       option_string_actions =
         [(''-h'', HelpAction), (''--help'', HelpAction),
          (''--config'', StoreAction config_spec),
          (''--log_level'', StoreAction log_level_spec),
          (''--config_dir'', StoreAction (config_dir_spec d))],
       actions = fixed_actions d,
       has_negative_number_optionals = False \<rparr>"

text \<open>The application \<^verbatim>\<open>testapp\<close>: the arguments of the constructor, and what the
  first \<^verbatim>\<open>Confumo.get_instance(app_name="testapp")\<close> leaves.\<close>

definition testapp_args :: ctor_args where
  "testapp_args = \<lparr> arg_app_name = Some (PStr ''testapp''), arg_additional_args = None \<rparr>"

definition default_args :: ctor_args where
  "default_args = \<lparr> arg_app_name = None, arg_additional_args = None \<rparr>"

definition testapp_config :: "string \<Rightarrow> pyval option" where
  "testapp_config =
     [''log_level'' \<mapsto> PStr ''INFO'', ''app_name'' \<mapsto> PStr ''testapp'',
      ''config_dir'' \<mapsto> PStr ''/home/u/.config/testapp'']"

definition testapp_namespace :: "string \<Rightarrow> pyval option" where
  "testapp_namespace =
     [''config'' \<mapsto> PNone, ''log_level'' \<mapsto> PStr ''INFO'',
      ''config_dir'' \<mapsto> PStr ''/home/u/.config/testapp'']"

definition testapp_object :: pyobject where
  "testapp_object =
     \<lparr> inst_cls = Confumo,
       inst_dict =
         [''app_name'' \<mapsto> PStr ''testapp'',
          ''platform_name'' \<mapsto> PStr ''Linux'',
          ''config_dir'' \<mapsto> PStr ''/home/u/.config/testapp'',
          ''additional_args'' \<mapsto> PNone,
          ''args'' \<mapsto> PNamespace testapp_namespace,
          ''config'' \<mapsto> PDict testapp_config] \<rparr>"

definition testapp_state :: "posix_fs state" where
  "testapp_state =
     \<lparr> heap = [testapp_object],
       instances = [Confumo \<mapsto> 0],
       modules = [''confumo.confumo'' \<mapsto> confumo_module @ [(''__getattr__'', PFunction ''__getattr__'')]],
       fs = home_fs \<rparr>"

text \<open>
  The environment of a Windows process whose \<^verbatim>\<open>LOCALAPPDATA\<close> is set to the
  empty string. (The resolver reads the environment variables only; the rest of the
  environment is left as above.)
\<close>

definition windows_empty_world :: "posix_fs world" where
  "windows_empty_world =
     linux_world \<lparr> platform_system := ''Windows'', environ := [''LOCALAPPDATA'' \<mapsto> []] \<rparr>"

text \<open>
  A process under Cygwin, where Python is a POSIX program and the shell has exported
  \<^verbatim>\<open>OSTYPE=cygwin\<close>: one whose \<^verbatim>\<open>cygpath\<close> exits with status 1 and prints
  nothing, one without the executable.
\<close>

definition cygwin_world :: "posix_fs world" where
  "cygwin_world =
     linux_world
       \<lparr> platform_system := ''CYGWIN_NT-10.0'',
         environ := [''HOME'' \<mapsto> ''/home/u'', ''OSTYPE'' \<mapsto> ''cygwin''],
         cygpath := (\<lambda>p. Completed 1 []) \<rparr>"

definition cygwin_world_no_cygpath :: "posix_fs world" where
  "cygwin_world_no_cygpath = cygwin_world \<lparr> cygpath := (\<lambda>p. ExecutableNotFound) \<rparr>"

text \<open>The state after \<^verbatim>\<open>instance.config['__setstate__'] = 1\<close>, and after
  \<^verbatim>\<open>instance.config['custom_value'] = 'x'\<close>.\<close>

definition setstate_state :: "posix_fs state" where
  "setstate_state =
     setattr 0 ''config'' (PDict (testapp_config(''__setstate__'' \<mapsto> PInt 1))) testapp_state"

definition custom_config :: "string \<Rightarrow> pyval option" where
  "custom_config = testapp_config(''custom_value'' \<mapsto> PStr ''x'')"

definition custom_state :: "posix_fs state" where
  "custom_state = setattr 0 ''config'' (PDict custom_config) testapp_state"

text \<open>A process started with \<^verbatim>\<open>--config /etc/app.yaml\<close>, where that file holds the
  mapping \<^verbatim>\<open>{log_level: DEBUG, extra: null}\<close>.\<close>

definition debug_yaml :: string where
  "debug_yaml = ''extra: null'' @ [CHR 0x0A] @ ''log_level: DEBUG'' @ [CHR 0x0A]"

definition file_world :: "posix_fs world" where
  "file_world = linux_world \<lparr> argv := [''--config'', ''/etc/app.yaml''] \<rparr>"

definition file_state :: "posix_fs state" where
  "file_state = testapp_state
     \<lparr> fs := \<lparr> dirs = {[], [''etc''], [''home''], [''home'', ''u'']},
              files = [[''etc'', ''app.yaml''] \<mapsto> debug_yaml],
              cwd = [''home'', ''u''] \<rparr> \<rparr>"

definition file_namespace :: "string \<Rightarrow> pyval option" where
  "file_namespace = testapp_namespace(''config'' \<mapsto> PStr ''/etc/app.yaml'')"














text \<open>
  A process whose application name is the empty string: the state that
  \<^verbatim>\<open>Confumo.get_instance(app_name="")\<close> leaves, whose configuration directory is
  written with a slash at its end, the text that the stand-in for PyYAML writes for its
  configuration map, and the state after \<^verbatim>\<open>save_config()\<close>.
\<close>

definition empty_name_state :: "posix_fs state" where
  "empty_name_state = app_state (PStr []) ''/home/u/.config/''"



text \<open>The state after \<^verbatim>\<open>instance.copy()\<close> on the instance of \<^verbatim>\<open>testapp\<close>.\<close>

definition copied_state :: "posix_fs state" where
  "copied_state = snd (copy 0 testapp_state)"

section \<open>Facts about the argument parser\<close>













section \<open>Facts about saving and the file system\<close>


lemma posix_join_plain:
  assumes "D \<noteq> []" and "last D \<noteq> CHR ''/''" and "\<not> prefix ''/'' I"
  shows "posix_join D (I @ ''_config.yaml'') = D @ ''/'' @ I @ ''_config.yaml''"
  using assms by (cases I) (auto simp add: posix_join_def)



section \<open>Facts about copying\<close>

lemma setattr_frame:
  "length (heap (setattr self n v st)) = length (heap st)"
  "inst_cls (heap (setattr self n v st) ! self) = inst_cls (heap st ! self)"
  "a \<noteq> self \<Longrightarrow> heap (setattr self n v st) ! a = heap st ! a"
  "modules (setattr self n v st) = modules st"
  "instances (setattr self n v st) = instances st"
  "fs (setattr self n v st) = fs st"
  by (simp_all add: setattr_def)

lemma setattr_dict:
  "self < length (heap st) \<Longrightarrow>
     inst_dict (heap (setattr self n v st) ! self) = (inst_dict (heap st ! self))(n \<mapsto> v)"
  by (simp add: setattr_def)

lemma promote_frame:
  "length (heap (promote self ns names st)) = length (heap st)
   \<and> inst_cls (heap (promote self ns names st) ! self) = inst_cls (heap st ! self)
   \<and> (\<forall>a. a \<noteq> self \<longrightarrow> heap (promote self ns names st) ! a = heap st ! a)
   \<and> modules (promote self ns names st) = modules st
   \<and> instances (promote self ns names st) = instances st
   \<and> fs (promote self ns names st) = fs st"
  by (induction names arbitrary: st) (simp_all add: setattr_frame)

lemma promote_dict:
  "self < length (heap st) \<Longrightarrow>
     inst_dict (heap (promote self ns names st) ! self) k =
       (if k \<in> set names \<and> \<not> prefix ''__'' k \<and> hasattr_module ns k
        then Some (getattr_module ns k) else inst_dict (heap st ! self) k)"
proof (induction names arbitrary: st)
  case Nil
  then show ?case by simp
next
  case (Cons n names)
  let ?st' = "(if \<not> prefix ''__'' n \<and> hasattr_module ns n
               then setattr self n (getattr_module ns n) st else st)"
  have l: "self < length (heap ?st')" using Cons.prems by (simp add: setattr_frame)
  have d: "inst_dict (heap ?st' ! self) k =
             (if k = n \<and> \<not> prefix ''__'' n \<and> hasattr_module ns n
              then Some (getattr_module ns n) else inst_dict (heap st ! self) k)"
    using Cons.prems by (simp add: setattr_dict)
  show ?case
    using Cons.IH [OF l] d by auto
qed

lemma dir_module_attr:
  "(k \<in> set (dir_module ns) \<and> \<not> prefix ''__'' k \<and> hasattr_module ns k)
     = (\<not> prefix ''__'' k \<and> map_of ns k \<noteq> None)"
  by (auto simp add: dir_module_def hasattr_module_def map_of_eq_None_iff)

lemma copy_result:
  assumes l: "self < length (heap st)"
      and m: "modules st (cls_module (inst_cls (heap st ! self))) = Some ns"
  shows "\<exists>st'. copy self st = (Inr (length (heap st)), st')
       \<and> length (heap st') = Suc (length (heap st))
       \<and> modules st' = modules st \<and> instances st' = instances st \<and> fs st' = fs st
       \<and> inst_cls (heap st' ! self) = inst_cls (heap st ! self)
       \<and> (\<forall>k. inst_dict (heap st' ! self) k =
              (case map_of ns k of
                 None \<Rightarrow> inst_dict (heap st ! self) k
               | Some v \<Rightarrow> if prefix ''__'' k then inst_dict (heap st ! self) k else Some v))
       \<and> inst_cls (heap st' ! length (heap st)) = inst_cls (heap st ! self)
       \<and> inst_dict (heap st' ! length (heap st)) = inst_dict (heap st' ! self)
       \<and> (\<forall>a. a < length (heap st) \<and> a \<noteq> self \<longrightarrow> heap st' ! a = heap st ! a)"
proof -
  let ?st1 = "promote self ns (dir_module ns) st"
  let ?d1 = "inst_dict (heap ?st1 ! self)"
  let ?shallow = "(\<lambda>k. case ?d1 k of None \<Rightarrow> None
                                  | Some v \<Rightarrow> if \<not> is_module v then Some v else None)"
  note fr = promote_frame [of self ns "dir_module ns" st]
  have l1: "self < length (heap ?st1)" using l fr by simp
  have d1: "?d1 k = (case map_of ns k of
                 None \<Rightarrow> inst_dict (heap st ! self) k
               | Some v \<Rightarrow> if prefix ''__'' k then inst_dict (heap st ! self) k else Some v)" for k
    using promote_dict [OF l, of ns "dir_module ns" k] dir_module_attr [of k ns]
    by (auto simp add: getattr_module_def split: option.splits)
  have sh: "?d1 ++ ?shallow = ?d1"
    by (rule ext) (simp add: map_add_def split: option.splits)
  let ?st' = "snd (copy self st)"
  have c: "copy self st =
     (Inr (length (heap st)),
      ?st1\<lparr>heap := heap ?st1 @ [\<lparr>inst_cls = inst_cls (heap ?st1 ! self), inst_dict = ?d1\<rparr>]\<rparr>)"
    using m fr
    by (simp add: copy_def copy_copy_def new_object_def Let_def sh nth_append)
  show ?thesis
    using l fr d1 by (simp add: c nth_append)
qed

lemma promoted_again:
  assumes "\<forall>k. d1 k = (case map_of ns k of
                        None \<Rightarrow> d0 k
                      | Some v \<Rightarrow> if prefix ''__'' k then d0 k else Some v)"
      and "\<forall>k. d2 k = (case map_of ns k of
                        None \<Rightarrow> d1 k
                      | Some v \<Rightarrow> if prefix ''__'' k then d1 k else Some (v :: pyval))"
  shows "d2 = d1"
proof (rule ext)
  fix k
  show "d2 k = d1 k"
    using assms(1) [rule_format, of k] assms(2) [rule_format, of k]
    by (cases "map_of ns k") simp_all
qed

section \<open>The concrete processes, evaluated\<close>

lemmas comp_defs = bind_def return_def raise_def lift_def

lemma linux_class_attr:
  "class_attr linux_world (PNamespace m) ''config'' = None"
  "class_attr linux_world (PNamespace m) ''log_level'' = None"
  "class_attr linux_world (PNamespace m) ''config_dir'' = None"
  by (simp_all add: linux_world_def python_class_attr_def namespace_class_attrs_def)

lemma linux_build_parser:
  "build_parser w v d None =
     Inr \<lparr> description = format_value w v @ '' Configuration'',
           option_string_actions =
             [(''-h'', HelpAction), (''--help'', HelpAction),
              (''--config'', StoreAction \<lparr> opt_flags = [Long ''config''], opt_type = TStr, opt_choices = None,
                  opt_default = PNone, opt_help = Some ''Path to the YAML configuration file'' \<rparr>),
              (''--log_level'', StoreAction \<lparr> opt_flags = [Long ''log_level''], opt_type = TStr,
                  opt_choices = Some log_levels, opt_default = PStr ''INFO'', opt_help = Some ''Logging level'' \<rparr>),
              (''--config_dir'', StoreAction \<lparr> opt_flags = [Long ''config_dir''], opt_type = TStr,
                  opt_choices = None, opt_default = PStr d,
                  opt_help = Some (''Where to load/save config data. Defaults to '' @ d) \<rparr>)],
           actions =
             [HelpAction,
              StoreAction \<lparr> opt_flags = [Long ''config''], opt_type = TStr, opt_choices = None,
                  opt_default = PNone, opt_help = Some ''Path to the YAML configuration file'' \<rparr>,
              StoreAction \<lparr> opt_flags = [Long ''log_level''], opt_type = TStr,
                  opt_choices = Some log_levels, opt_default = PStr ''INFO'', opt_help = Some ''Logging level'' \<rparr>,
              StoreAction \<lparr> opt_flags = [Long ''config_dir''], opt_type = TStr,
                  opt_choices = None, opt_default = PStr d,
                  opt_help = Some (''Where to load/save config data. Defaults to '' @ d) \<rparr>],
           has_negative_number_optionals = False \<rparr>"
  by (simp add: build_parser_def add_argument_def ArgumentParser_def dest_of_def
        is_negative_number_def is_digit_def)

lemma dest_simps:
  "dest_of [Long ''config''] = ''config''"
  "dest_of [Long ''log_level''] = ''log_level''"
  "dest_of [Long ''config_dir''] = ''config_dir''"
  by (simp_all add: dest_of_def)

lemmas spec_defs = config_spec_def log_level_spec_def config_dir_spec_def

lemma build_fixed_parser:
  "build_parser w v d None = Inr (fixed_parser (format_value w v @ '' Configuration'') d)"
  by (simp add: linux_build_parser fixed_parser_def fixed_actions_def spec_defs)

lemma fixed_parser_simps:
  "actions (fixed_parser descr d) = fixed_actions d"
  "description (fixed_parser descr d) = descr"
  by (simp_all add: fixed_parser_def)

lemma hasattr_simps:
  "py_hasattr linux_world (PNamespace m) ''config'' = (m ''config'' \<noteq> None)"
  "py_hasattr linux_world (PNamespace m) ''log_level'' = (m ''log_level'' \<noteq> None)"
  "py_hasattr linux_world (PNamespace m) ''config_dir'' = (m ''config_dir'' \<noteq> None)"
  by (auto simp add: py_hasattr_def py_getattr_def namespace_data_attr_def linux_class_attr
      split: option.splits)

lemma getattr_simps:
  "m ''config'' = Some x \<Longrightarrow> py_getattr w (PNamespace m) ''config'' = Inr x"
  "m ''log_level'' = Some x \<Longrightarrow> py_getattr w (PNamespace m) ''log_level'' = Inr x"
  "m ''config_dir'' = Some x \<Longrightarrow> py_getattr w (PNamespace m) ''config_dir'' = Inr x"
  by (simp_all add: py_getattr_def namespace_data_attr_def)

lemma setattr_simps:
  "namespace_setattr m ''config'' x = Inr (m(''config'' \<mapsto> x))"
  "namespace_setattr m ''log_level'' x = Inr (m(''log_level'' \<mapsto> x))"
  "namespace_setattr m ''config_dir'' x = Inr (m(''config_dir'' \<mapsto> x))"
  by (simp_all add: namespace_setattr_def)

lemma linux_set_defaults:
  "set_defaults linux_world (fixed_actions d) Map.empty = Inr (app_namespace d)"
  by (simp add: fixed_actions_def spec_defs dest_simps hasattr_simps setattr_simps app_namespace_def)

lemma linux_convert_defaults:
  "convert_defaults linux_world (fixed_actions d) [] (app_namespace d) = Inr (app_namespace d)"
  apply (simp add: fixed_actions_def spec_defs dest_simps setattr_simps convert_def)
  apply (simp add: app_namespace_def getattr_simps)
  done

lemma linux_parse_args:
  "parse_args linux_world v d None None = Inr (app_namespace d)"
proof -
  have a: "argv linux_world = []" by (simp add: linux_world_def)
  show ?thesis
    by (simp add: parse_args_def build_fixed_parser parser_parse_args_def a fixed_parser_simps
          linux_set_defaults linux_convert_defaults)
qed

lemma linux_default_dir:
  "get_default_config_dir linux_world (platform_system linux_world) = Inr ''/home/u/.config''"
  by (simp add: get_default_config_dir_def linux_world_def posix_expanduser_def rstrip_slash_def)

lemma linux_not_cygwin: "\<not> is_cygwin linux_world"
  by (simp add: is_cygwin_def os_getenv_default_def lower_def linux_world_def)

lemma module_getattr_installed:
  "setattr_module ''confumo.confumo'' ''__getattr__'' v st
     = st\<lparr>modules := (modules st)(''confumo.confumo'' \<mapsto> confumo_module @ [(''__getattr__'', v)])\<rparr>"
  if "modules st ''confumo.confumo'' = Some confumo_module"
  using that by (simp add: setattr_module_def confumo_module_def)

lemma confumo_module_hasattr:
  "\<not> hasattr_module confumo_module ''__getattr__''" "hasattr_module confumo_module ''__dir__''"
  by (simp_all add: hasattr_module_def module_type_attrs_def confumo_module_def)

lemma init_config_app:
  assumes "modules st ''confumo.confumo'' = Some confumo_module"
      and "inst_cls (heap st ! self) = Confumo"
  shows "initialize_configuration linux_world self v (app_namespace d) st
     = (Inr (app_config v d),
        st\<lparr>modules := (modules st)(''confumo.confumo'' \<mapsto> confumo_module @ [(''__getattr__'', PFunction ''__getattr__'')])\<rparr>)"
proof -
  have g: "py_getattr linux_world (PNamespace (app_namespace d)) ''config_dir'' = Inr (PStr d)"
    "py_getattr linux_world (PNamespace (app_namespace d)) ''log_level'' = Inr (PStr ''INFO'')"
    "py_getattr linux_world (PNamespace (app_namespace d)) ''config'' = Inr PNone"
    by (simp_all add: getattr_simps app_namespace_def)
  have e: "ensure_windows_path linux_world d = Inr (posix_abspath ''/home/u'' d)"
    by (simp add: ensure_windows_path_def linux_not_cygwin) (simp add: linux_world_def)
  have s: "setup_module_attributes self st
     = (Inr (), st\<lparr>modules := (modules st)(''confumo.confumo'' \<mapsto> confumo_module @ [(''__getattr__'', PFunction ''__getattr__'')])\<rparr>)"
    using assms
    by (simp add: setup_module_attributes_def Confumo_def confumo_module_hasattr
          module_getattr_installed)
  show ?thesis
    by (simp add: initialize_configuration_def comp_defs g e s app_config_def)
qed

lemma setattr_single:
  "setattr 0 name v (st\<lparr>heap := [obj]\<rparr>) = st\<lparr>heap := [obj\<lparr>inst_dict := (inst_dict obj)(name \<mapsto> v)\<rparr>]\<rparr>"
  by (simp add: setattr_def)

lemma init_app:
  assumes "as_path v = Inr s"
  shows "Confumo_init linux_world 0 v None
      (start_state\<lparr>heap := [\<lparr>inst_cls = Confumo, inst_dict = Map.empty\<rparr>]\<rparr>)
     = (Inr (), app_state v (posix_join ''/home/u/.config'' s)\<lparr>instances := Map.empty\<rparr>)"
proof -
  have j: "os_path_join linux_world = posix_join" by (simp add: linux_world_def)
  have p: "platform_system linux_world = ''Linux''" by (simp add: linux_world_def)
  show ?thesis
    apply (simp add: Confumo_init_def comp_defs setattr_single linux_default_dir assms j
        linux_parse_args)
    apply (subst init_config_app)
      apply (simp_all add: start_state_def setattr_single)
    apply (simp add: setattr_def app_state_def app_object_def additional_args_value_def p)
    done
qed

lemma start_state_simps:
  "heap start_state = []" "instances start_state = Map.empty"
  by (simp_all add: start_state_def)

lemma get_instance_app:
  assumes "as_path v = Inr s"
  shows "get_instance linux_world Confumo \<lparr> arg_app_name = Some v, arg_additional_args = None \<rparr> start_state
           = (Inr 0, app_state v (posix_join ''/home/u/.config'' s))"
  by (simp add: get_instance_def construct_def new_object_def start_state_simps init_app [OF assms])
     (simp add: app_state_def)

lemma testapp_state_app: "app_state (PStr ''testapp'') (posix_join ''/home/u/.config'' ''testapp'') = testapp_state"
  by (simp add: app_state_def testapp_state_def app_object_def testapp_object_def app_namespace_def
        testapp_namespace_def app_config_def testapp_config_def posix_join_def posix_abspath_def
        posix_normpath_def join_slash.simps)

lemma get_instance_testapp:
  "get_instance linux_world Confumo testapp_args start_state = (Inr 0, testapp_state)"
  using get_instance_app [of "PStr ''testapp''" "''testapp''"]
  by (simp add: as_path_def testapp_args_def testapp_state_app)











lemma plain_simps:
  "is_plain ''testapp''" "is_plain ''/home/u/.config/testapp''" "is_plain ''INFO''" "is_plain ''x''"
  "is_plain ''app_name''" "is_plain ''config_dir''" "is_plain ''log_level''" "is_plain ''custom_value''"
  "is_plain ''DEBUG''" "is_plain ''extra''" "\<not> is_plain ''null''"
  "\<not> is_plain ''!!python/object/apply:pathlib.PosixPath''"
  by (simp_all add: is_plain_def lower_def lower_char_def)




lemma load_debug:
  "pyyaml_safe_load debug_yaml = Inr (PDict [''extra'' \<mapsto> PNone, ''log_level'' \<mapsto> PStr ''DEBUG''])"
proof -
  have l: "split_lines debug_yaml = [''extra: null'', ''log_level: DEBUG'']"
    by (simp add: debug_yaml_def)
  have m: "load_lines [''extra: null'', ''log_level: DEBUG''] Map.empty
     = Inr [''extra'' \<mapsto> PNone, ''log_level'' \<mapsto> PStr ''DEBUG'']"
    by (simp add: load_scalar_def plain_simps Let_def)
  show ?thesis
    unfolding pyyaml_safe_load_def l m by simp
qed




lemma testapp_state_dict:
  "inst_dict (heap testapp_state ! 0) ''config_dir'' = Some (PStr ''/home/u/.config/testapp'')"
  "inst_dict (heap testapp_state ! 0) ''app_name'' = Some (PStr ''testapp'')"
  "inst_dict (heap testapp_state ! 0) ''config'' = Some (PDict testapp_config)"
  "inst_dict (heap testapp_state ! 0) ''args'' = Some (PNamespace testapp_namespace)"
  "inst_cls (heap testapp_state ! 0) = Confumo"
  "fs testapp_state = home_fs"
  by (simp_all add: testapp_state_def testapp_object_def)

lemma custom_state_dict:
  "inst_dict (heap custom_state ! 0) ''config_dir'' = Some (PStr ''/home/u/.config/testapp'')"
  "inst_dict (heap custom_state ! 0) ''app_name'' = Some (PStr ''testapp'')"
  "inst_dict (heap custom_state ! 0) ''config'' = Some (PDict custom_config)"
  "inst_dict (heap custom_state ! 0) ''args'' = Some (PNamespace testapp_namespace)"
  "inst_cls (heap custom_state ! 0) = Confumo"
  "fs custom_state = home_fs"
  by (simp_all add: custom_state_def setattr_def testapp_state_def testapp_object_def)





lemma setup_module_attributes_ok:
  assumes "modules st (cls_module (inst_cls (heap st ! self))) = Some ns"
  shows "\<exists>st'. setup_module_attributes self st = (Inr (), st')"
  using assms by (simp add: setup_module_attributes_def Let_def)

lemma cygwin_is_cygwin: "is_cygwin cygwin_world" "is_cygwin cygwin_world_no_cygpath"
  by (simp_all add: is_cygwin_def os_getenv_default_def lower_def lower_char_def
        cygwin_world_def cygwin_world_no_cygpath_def linux_world_def)

lemma setstate_state_dict:
  "inst_dict (heap setstate_state ! 0) ''config''
     = Some (PDict (testapp_config(''__setstate__'' \<mapsto> PInt 1)))"
  by (simp add: setstate_state_def setattr_def testapp_state_def testapp_object_def)


lemma testapp_state_facts:
  "0 < length (heap testapp_state)"
  "length (heap testapp_state) = 1"
  "modules testapp_state (cls_module (inst_cls (heap testapp_state ! 0)))
     = Some (confumo_module @ [(''__getattr__'', PFunction ''__getattr__'')])"
  by (simp_all add: testapp_state_def testapp_object_def Confumo_def)

lemma copied_state_facts:
  "copy 0 testapp_state = (Inr 1, copied_state)"
  "length (heap copied_state) = 2"
  "modules copied_state = modules testapp_state"
  "instances copied_state = instances testapp_state"
  "inst_cls (heap copied_state ! 0) = Confumo"
  "inst_dict (heap copied_state ! 1) = inst_dict (heap copied_state ! 0)"
  "inst_dict (heap copied_state ! 0) k =
     (case map_of (confumo_module @ [(''__getattr__'', PFunction ''__getattr__'')]) k of
        None \<Rightarrow> inst_dict (heap testapp_state ! 0) k
      | Some v \<Rightarrow> if prefix ''__'' k then inst_dict (heap testapp_state ! 0) k else Some v)"
  using copy_result [OF testapp_state_facts(1) testapp_state_facts(3)]
  by (auto simp add: copied_state_def testapp_state_facts(2))
     (simp_all add: testapp_state_def testapp_object_def)









lemma file_state_facts:
  "modules file_state (cls_module (inst_cls (heap file_state ! 0)))
     = Some (confumo_module @ [(''__getattr__'', PFunction ''__getattr__'')])"
  "open_read file_world (fs file_state) ''/etc/app.yaml'' = Inr debug_yaml"
  "yaml_safe_load file_world debug_yaml
     = Inr (PDict [''extra'' \<mapsto> PNone, ''log_level'' \<mapsto> PStr ''DEBUG''])"
  "ensure_windows_path file_world ''/home/u/.config/testapp'' = Inr ''/home/u/.config/testapp''"
     apply (simp add: file_state_def testapp_state_def testapp_object_def Confumo_def)
    apply (simp add: file_world_def linux_world_def posix_open_read_def lookup_def file_state_def)
   apply (simp add: file_world_def linux_world_def load_debug)
  apply (simp add: ensure_windows_path_def is_cygwin_def os_getenv_default_def lower_def
      file_world_def linux_world_def posix_abspath_def posix_normpath_def)
  done

lemma get_instance_empty_name:
  "get_instance linux_world Confumo \<lparr> arg_app_name = Some (PStr []), arg_additional_args = None \<rparr>
       start_state = (Inr 0, empty_name_state)"
  using get_instance_app [of "PStr []" "[]"]
  by (simp add: as_path_def posix_join_def empty_name_state_def)




section \<open>Claims\<close>

text \<open>
  C1: when \<^verbatim>\<open>get_instance(T, a1)\<close> returns an instance, the registry holds it under
  \<^verbatim>\<open>T\<close>, and \<^verbatim>\<open>get_instance(T, a2)\<close> returns the identical instance for any
  arguments \<^verbatim>\<open>a2\<close>, in the state the first call left and in every later state whose
  registry still holds it, without changing the state (the arguments are not looked at,
  the registry entry stays). The first call either found the instance in the registry or
  ran the constructor and recorded its result.
\<close>

theorem C1_get_instance_same_instance:
  assumes "get_instance w c a1 st = (Inr x, st1)"
  shows "instances st1 c = Some x
       \<and> get_instance w c a2 st1 = (Inr x, st1)
       \<and> (\<forall>st2 a3. instances st2 c = Some x \<longrightarrow> get_instance w c a3 st2 = (Inr x, st2))
       \<and> (case instances st c of
            Some y \<Rightarrow> y = x \<and> st1 = st
          | None \<Rightarrow> (case construct w c a1 st of
                       (Inr y, st') \<Rightarrow> y = x \<and> st1 = st'\<lparr>instances := (instances st')(c \<mapsto> x)\<rparr>
                     | (Inl e, st') \<Rightarrow> False))"
  using assms
  by (auto simp add: get_instance_def split: option.splits prod.splits sum.splits)

theorem C1_witness:
  "get_instance linux_world Confumo testapp_args start_state = (Inr 0, testapp_state)
   \<and> get_instance linux_world Confumo default_args testapp_state = (Inr 0, testapp_state)
   \<and> instances testapp_state Confumo = Some 0"
  using C1_get_instance_same_instance [OF get_instance_testapp, of default_args] get_instance_testapp
  by simp

text \<open>
  C2 (as the spec states it): a name that is a key of the configuration map resolves to
  that key's value. The code refuses the two names \<^verbatim>\<open>__getstate__\<close> and
  \<^verbatim>\<open>__setstate__\<close> before it looks at the map, so a map with the key
  \<^verbatim>\<open>__setstate__\<close> (a name that no class here defines, so that Python does call
  \<^verbatim>\<open>__getattr__\<close> for it) does not resolve it.
\<close>

theorem C2_setstate_counterexample:
  "inst_dict (heap setstate_state ! 0) ''config''
      = Some (PDict (testapp_config(''__setstate__'' \<mapsto> PInt 1)))
   \<and> (testapp_config(''__setstate__'' \<mapsto> PInt 1)) ''__setstate__'' = Some (PInt 1)
   \<and> dunder_getattr linux_world setstate_state 0 ''__setstate__'' = Inl (AttributeError [])"
  by (simp add: setstate_state_dict dunder_getattr_def)

text \<open>
  C2 (amended): on an instance whose dictionary holds the configuration map and the parsed
  arguments, \<^verbatim>\<open>__getattr__(name)\<close> fails with \<^verbatim>\<open>AttributeError\<close> for the names
  \<^verbatim>\<open>__getstate__\<close> and \<^verbatim>\<open>__setstate__\<close>; for every other name it returns the
  value of the key \<^verbatim>\<open>name\<close> of the configuration map if there is one, else what
  \<^verbatim>\<open>getattr\<close> finds under \<^verbatim>\<open>name\<close> on the namespace of the parsed arguments
  (one of its three data descriptors, else its field of that name, else an attribute of
  its class, such as the method \<^verbatim>\<open>_get_kwargs\<close>), and when it finds nothing fails
  with \<^verbatim>\<open>AttributeError\<close> (the spec's AttributeNotFound).
\<close>

theorem C2_attribute_resolution:
  assumes "inst_dict (heap st ! self) ''config'' = Some (PDict config)"
      and "inst_dict (heap st ! self) ''args'' = Some (PNamespace args)"
  shows "dunder_getattr w st self name =
           (if name \<in> set [''__getstate__'', ''__setstate__''] then Inl (AttributeError [])
            else case config name of
              Some v \<Rightarrow> Inr v
            | None \<Rightarrow>
                (case namespace_data_attr args name of
                   Some v \<Rightarrow> Inr v
                 | None \<Rightarrow>
                     (case args name of
                        Some v \<Rightarrow> Inr v
                      | None \<Rightarrow>
                          (case class_attr w (PNamespace args) name of
                             Some v \<Rightarrow> Inr v
                           | None \<Rightarrow> Inl (AttributeError
                               (cls_name (inst_cls (heap st ! self)) @ '' object has no attribute '' @ name))))))"
  using assms
  by (simp add: dunder_getattr_def py_in_def py_getitem_def py_hasattr_def py_getattr_def
        Let_def split: option.splits)

theorem C2_witness:
  "dunder_getattr linux_world custom_state 0 ''custom_value'' = Inr (PStr ''x'')
   \<and> dunder_getattr linux_world custom_state 0 ''log_level'' = Inr (PStr ''INFO'')
   \<and> dunder_getattr linux_world custom_state 0 ''config'' = Inr PNone
   \<and> dunder_getattr linux_world custom_state 0 ''__dict__'' = Inr (PDict testapp_namespace)
   \<and> dunder_getattr linux_world custom_state 0 ''_get_kwargs'' = Inr (PFunction ''_get_kwargs'')
   \<and> dunder_getattr linux_world custom_state 0 ''missing_attr''
       = Inl (AttributeError ''Confumo object has no attribute missing_attr'')"
  using C2_attribute_resolution [OF custom_state_dict(3) custom_state_dict(4), of linux_world "''custom_value''"]
        C2_attribute_resolution [OF custom_state_dict(3) custom_state_dict(4), of linux_world "''log_level''"]
        C2_attribute_resolution [OF custom_state_dict(3) custom_state_dict(4), of linux_world "''config''"]
        C2_attribute_resolution [OF custom_state_dict(3) custom_state_dict(4), of linux_world "''__dict__''"]
        C2_attribute_resolution [OF custom_state_dict(3) custom_state_dict(4), of linux_world "''_get_kwargs''"]
        C2_attribute_resolution [OF custom_state_dict(3) custom_state_dict(4), of linux_world "''missing_attr''"]
  by (simp add: custom_state_dict(5) custom_config_def testapp_config_def testapp_namespace_def
        Confumo_def namespace_data_attr_def linux_world_def python_class_attr_def
        namespace_class_attrs_def)

text \<open>
  C3: when the parsed arguments name a configuration file that is read as a mapping, the
  assembled map is the base map \<^verbatim>\<open>{log_level, app_name, config_dir}\<close> overwritten
  by the file: every key of the file whose value is not null has the file's value
  (whether or not the base map has the key), and a key whose value in the file is null
  keeps what the base map has for it, which is nothing for a key outside the base map.
\<close>

theorem C3_merge:
  assumes "args ''config_dir'' = Some (PStr d)"
      and "ensure_windows_path w d = Inr config_dir"
      and "args ''log_level'' = Some log_level"
      and "args ''config'' = Some (PStr path)"
      and "path \<noteq> []"
      and "open_read w (fs st) path = Inr content"
      and "yaml_safe_load w content = Inr (PDict file_config)"
      and "modules st (cls_module (inst_cls (heap st ! self))) = Some ns"
  shows "fst (initialize_configuration w self app_name args st) =
           Inr (\<lambda>k. case file_config k of
                       Some v \<Rightarrow>
                         if v \<noteq> PNone then Some v
                         else [''log_level'' \<mapsto> log_level, ''app_name'' \<mapsto> app_name,
                               ''config_dir'' \<mapsto> PStr config_dir] k
                     | None \<Rightarrow>
                         [''log_level'' \<mapsto> log_level, ''app_name'' \<mapsto> app_name,
                          ''config_dir'' \<mapsto> PStr config_dir] k)"
proof -
  let ?base = "[''log_level'' \<mapsto> log_level, ''app_name'' \<mapsto> app_name,
                ''config_dir'' \<mapsto> PStr config_dir]"
  obtain st' where s: "setup_module_attributes self st = (Inr (), st')"
    using setup_module_attributes_ok [OF assms(8)] by blast
  have m: "?base ++ without_none file_config =
           (\<lambda>k. case file_config k of
                   Some v \<Rightarrow> if v \<noteq> PNone then Some v else ?base k
                 | None \<Rightarrow> ?base k)"
    by (rule ext) (simp add: map_add_def without_none_def split: option.splits)
  have g: "py_getattr w (PNamespace args) ''config_dir'' = Inr (PStr d)"
    "py_getattr w (PNamespace args) ''log_level'' = Inr log_level"
    "py_getattr w (PNamespace args) ''config'' = Inr (PStr path)"
    using assms(1,3,4) by (simp_all add: getattr_simps)
  have "initialize_configuration w self app_name args st
          = (Inr (?base ++ without_none file_config), st')"
    using assms(2,5-7) s
    by (simp add: initialize_configuration_def comp_defs read_config_file_def py_open_read_def g)
  then show ?thesis
    by (simp only: m fst_conv)
qed

theorem C3_witness:
  "(case fst (initialize_configuration file_world 0 (PStr ''testapp'') file_namespace file_state) of
      Inl e \<Rightarrow> False
    | Inr config \<Rightarrow>
        config ''log_level'' = Some (PStr ''DEBUG'') \<and> config ''extra'' = None
        \<and> config ''app_name'' = Some (PStr ''testapp'')
        \<and> config ''config_dir'' = Some (PStr ''/home/u/.config/testapp''))"
proof -
  have a: "file_namespace ''config_dir'' = Some (PStr ''/home/u/.config/testapp'')"
    and b: "file_namespace ''log_level'' = Some (PStr ''INFO'')"
    and c: "file_namespace ''config'' = Some (PStr ''/etc/app.yaml'')"
    by (simp_all add: file_namespace_def testapp_namespace_def)
  have n: "''/etc/app.yaml'' \<noteq> []" by simp
  show ?thesis
    using C3_merge [OF a file_state_facts(4) b c n file_state_facts(2) file_state_facts(3)
            file_state_facts(1), of "PStr ''testapp''"]
    by simp
qed

text \<open>
  C4 (as the spec states it): on Windows the resolver returns the value of the required
  environment variable, and fails only when that variable is unset. The code tests the
  value's truthiness, so a variable that is set to the empty string is not returned:
  the call raises \<^verbatim>\<open>ConfumoError\<close>.
\<close>

theorem C4_windows_empty_value_counterexample:
  "os_getenv windows_empty_world ''LOCALAPPDATA'' = Some []
   \<and> get_default_config_dir windows_empty_world ''Windows''
       = Inl (ConfumoError ''LOCALAPPDATA environment variable is not set on Windows'')"
  by (simp add: get_default_config_dir_def os_getenv_def windows_empty_world_def)

text \<open>
  C4 (amended): for the platform name Darwin the resolver returns the expanded
  application-support path; for Linux and CYGWIN the expanded per-user config path; for
  Windows the value of \<^verbatim>\<open>LOCALAPPDATA\<close> when it is set and not empty, and a
  \<^verbatim>\<open>ConfumoError\<close> (the spec's UnsupportedPlatform) when it is unset or empty; for
  every other platform name a \<^verbatim>\<open>ConfumoError\<close> naming the platform.
\<close>

theorem C4_get_default_config_dir:
  "get_default_config_dir w ''Darwin'' = Inr (expanduser w ''~/Library/Application Support'')
   \<and> get_default_config_dir w ''Linux'' = Inr (expanduser w ''~/.config'')
   \<and> get_default_config_dir w ''CYGWIN'' = Inr (expanduser w ''~/.config'')
   \<and> (case os_getenv w ''LOCALAPPDATA'' of
         None \<Rightarrow> get_default_config_dir w ''Windows'' =
           Inl (ConfumoError ''LOCALAPPDATA environment variable is not set on Windows'')
       | Some v \<Rightarrow> get_default_config_dir w ''Windows'' =
           (if v = [] then Inl (ConfumoError ''LOCALAPPDATA environment variable is not set on Windows'')
            else Inr v))
   \<and> (if p \<in> set [''Darwin'', ''Linux'', ''CYGWIN'', ''Windows'']
        then True
        else get_default_config_dir w p = Inl (ConfumoError (''Unsupported OS: '' @ p)))"
  by (auto simp add: get_default_config_dir_def split: option.splits)




text \<open>
  C6 (as the spec states it): in the Cygwin branch a non-zero exit status of the conversion
  process makes the path normalization fail. The code calls \<^verbatim>\<open>subprocess.run\<close>
  without \<^verbatim>\<open>check=True\<close> and never reads the return code: with exit status 1 and
  an empty output the normalization returns the empty string.
\<close>

theorem C6_nonzero_exit_counterexample:
  "is_cygwin cygwin_world
   \<and> cygpath cygwin_world ''/cygdrive/c/cfg'' = Completed 1 []
   \<and> ensure_windows_path cygwin_world ''/cygdrive/c/cfg'' = Inr []"
  by (simp add: cygwin_is_cygwin ensure_windows_path_def cygwin_to_windows_path_def)
     (simp add: cygwin_world_def strip_def)

text \<open>
  C6 (amended): in the Cygwin branch, a missing executable makes the path normalization
  fail with the \<^verbatim>\<open>FileNotFoundError\<close> of the subprocess call, which
  \<^verbatim>\<open>_initialize_configuration\<close> passes on unchanged, without a second attempt and
  without a change of the state; a process that completes, with whatever exit status,
  makes it return the stripped standard output.
\<close>

theorem C6_subprocess_failure:
  assumes "is_cygwin w"
  shows "ensure_windows_path w p =
           (case cygpath w p of
              ExecutableNotFound \<Rightarrow> Inl (FileNotFoundError ''cygpath'')
            | Completed returncode out \<Rightarrow> Inr (strip out))
       \<and> (case cygpath w p of
              ExecutableNotFound \<Rightarrow>
                initialize_configuration w self app_name (args(''config_dir'' \<mapsto> PStr p)) st
                  = (Inl (FileNotFoundError ''cygpath''), st)
            | Completed returncode out \<Rightarrow> True)"
  using assms
  by (simp add: ensure_windows_path_def cygwin_to_windows_path_def initialize_configuration_def
        comp_defs getattr_simps split: proc_result.splits)

theorem C6_witness:
  "is_cygwin cygwin_world_no_cygpath
   \<and> ensure_windows_path cygwin_world_no_cygpath ''/cygdrive/c/cfg'' = Inl (FileNotFoundError ''cygpath'')
   \<and> initialize_configuration cygwin_world_no_cygpath 0 (PStr ''testapp'')
         (testapp_namespace(''config_dir'' \<mapsto> PStr ''/cygdrive/c/cfg'')) testapp_state
       = (Inl (FileNotFoundError ''cygpath''), testapp_state)"
  using C6_subprocess_failure [OF cygwin_is_cygwin(2), of "''/cygdrive/c/cfg''" 0 "PStr ''testapp''"
          testapp_namespace testapp_state]
  by (simp add: cygwin_is_cygwin) (simp add: cygwin_world_no_cygpath_def)




text \<open>
  C8: the copy of an instance is meant to carry no attribute whose value is a module. On
  the instance of \<^verbatim>\<open>testapp\<close>, \<^verbatim>\<open>copy()\<close> returns a new object (reference 1,
  the receiver being 0) with the receiver's configuration map, and the registry still
  answers with the receiver; but the new object has the attribute \<^verbatim>\<open>os\<close>, whose
  value is the module \<^verbatim>\<open>os\<close> that the promotion loop has just set on the receiver:
  \<^verbatim>\<open>copy.copy(self)\<close> copies the whole dictionary, and updating the copy with the
  dictionary filtered of modules removes nothing.
\<close>

theorem C8_copy_keeps_modules:
  "fst (copy 0 testapp_state) = Inr 1
   \<and> inst_dict (heap (snd (copy 0 testapp_state)) ! 1) ''os'' = Some (PModule ''os'')
   \<and> is_module (PModule ''os'')
   \<and> inst_dict (heap (snd (copy 0 testapp_state)) ! 1) ''config'' = Some (PDict testapp_config)
   \<and> get_instance linux_world Confumo default_args (snd (copy 0 testapp_state))
       = (Inr 0, snd (copy 0 testapp_state))"
proof -
  have s: "snd (copy 0 testapp_state) = copied_state" "fst (copy 0 testapp_state) = Inr 1"
    by (simp_all add: copied_state_facts(1))
  have a: "inst_dict (heap copied_state ! 1) ''os'' = Some (PModule ''os'')"
    by (simp only: copied_state_facts(6) copied_state_facts(7)) (simp add: confumo_module_def)
  have b: "inst_dict (heap copied_state ! 1) ''config'' = Some (PDict testapp_config)"
    by (simp only: copied_state_facts(6) copied_state_facts(7))
       (simp add: confumo_module_def testapp_state_dict)
  have c: "instances copied_state Confumo = Some 0"
    by (simp add: copied_state_facts(4)) (simp add: testapp_state_def)
  have g: "get_instance linux_world Confumo default_args copied_state = (Inr 0, copied_state)"
    by (simp add: get_instance_def c)
  from a b g show ?thesis by (simp add: s is_module_def)
qed




text \<open>
  C10 (as the claim states it): after any call to \<^verbatim>\<open>copy()\<close> the receiver has
  attributes that it did not have before the call. A second call on the same instance
  assigns the same module attributes again: the receiver's dictionary after it is the one
  before it.
\<close>

theorem C10_second_copy_counterexample:
  "fst (copy 0 testapp_state) = Inr 1
   \<and> fst (copy 0 (snd (copy 0 testapp_state))) = Inr 2
   \<and> inst_dict (heap (snd (copy 0 (snd (copy 0 testapp_state)))) ! 0)
       = inst_dict (heap (snd (copy 0 testapp_state)) ! 0)"
proof -
  define ns where "ns = confumo_module @ [(''__getattr__'', PFunction ''__getattr__'')]"
  have s: "snd (copy 0 testapp_state) = copied_state" "fst (copy 0 testapp_state) = Inr 1"
    by (simp_all add: copied_state_facts(1))
  have l: "0 < length (heap copied_state)" by (simp add: copied_state_facts(2))
  have m: "modules copied_state (cls_module (inst_cls (heap copied_state ! 0))) = Some ns"
    by (simp add: copied_state_facts(3) copied_state_facts(5) ns_def)
       (simp add: testapp_state_def Confumo_def)
  have d1: "\<forall>k. inst_dict (heap copied_state ! 0) k =
              (case map_of ns k of
                 None \<Rightarrow> inst_dict (heap testapp_state ! 0) k
               | Some v \<Rightarrow> if prefix ''__'' k then inst_dict (heap testapp_state ! 0) k else Some v)"
    unfolding ns_def using copied_state_facts(7) by blast
  from copy_result [OF l m] obtain st' where
      c: "copy 0 copied_state = (Inr 2, st')"
    and d2: "\<forall>k. inst_dict (heap st' ! 0) k =
              (case map_of ns k of
                 None \<Rightarrow> inst_dict (heap copied_state ! 0) k
               | Some v \<Rightarrow> if prefix ''__'' k then inst_dict (heap copied_state ! 0) k else Some v)"
    by (auto simp add: copied_state_facts(2))
  have "inst_dict (heap st' ! 0) = inst_dict (heap copied_state ! 0)"
    using promoted_again [OF d1 d2] .
  with c show ?thesis by (simp add: s)
qed

text \<open>
  C10 (amended): \<^verbatim>\<open>copy()\<close> changes its receiver. On an instance whose defining
  module is loaded it returns, and afterwards the receiver's dictionary holds, under every
  name of the module's namespace that does not start with two underscores, the module's
  value for that name (a new attribute where the receiver had none of that name, as on a
  first call, and no change where it already held that value, as on a repeated call);
  every other entry of the dictionary, and the receiver's class, are as before.
\<close>

theorem C10_copy_promotes_module_attributes:
  assumes "self < length (heap st)"
      and "modules st (cls_module (inst_cls (heap st ! self))) = Some ns"
  shows "(case copy self st of
            (Inl e, st') \<Rightarrow> False
          | (Inr copied_instance, st') \<Rightarrow>
              inst_dict (heap st' ! self) =
                (\<lambda>k. case map_of ns k of
                        None \<Rightarrow> inst_dict (heap st ! self) k
                      | Some v \<Rightarrow> if prefix ''__'' k then inst_dict (heap st ! self) k else Some v)
              \<and> inst_cls (heap st' ! self) = inst_cls (heap st ! self))"
proof -
  from copy_result [OF assms] obtain st' where
      c: "copy self st = (Inr (length (heap st)), st')"
    and k: "inst_cls (heap st' ! self) = inst_cls (heap st ! self)"
    and d: "\<forall>k. inst_dict (heap st' ! self) k =
              (case map_of ns k of
                 None \<Rightarrow> inst_dict (heap st ! self) k
               | Some v \<Rightarrow> if prefix ''__'' k then inst_dict (heap st ! self) k else Some v)"
    by blast
  from d have "inst_dict (heap st' ! self) =
                (\<lambda>k. case map_of ns k of
                        None \<Rightarrow> inst_dict (heap st ! self) k
                      | Some v \<Rightarrow> if prefix ''__'' k then inst_dict (heap st ! self) k else Some v)"
    by (intro ext) simp
  with c k show ?thesis by simp
qed

theorem C10_witness:
  "(case copy 0 testapp_state of
      (Inl e, st') \<Rightarrow> False
    | (Inr copied_instance, st') \<Rightarrow>
        inst_dict (heap testapp_state ! 0) ''yaml'' = None
        \<and> inst_dict (heap st' ! 0) ''yaml'' = Some (PModule ''yaml'')
        \<and> inst_dict (heap st' ! 0) ''Confumo'' = Some (PClass ''Confumo'')
        \<and> inst_dict (heap st' ! 0) ''__name__'' = None
        \<and> inst_dict (heap st' ! 0) ''app_name'' = Some (PStr ''testapp''))"
  using C10_copy_promotes_module_attributes [OF testapp_state_facts(1) testapp_state_facts(3)]
  by (auto simp add: confumo_module_def split: sum.splits)
     (simp_all add: testapp_state_def testapp_object_def)

end
